theory Spec2Isabelle
  imports Complex_Main "HOL-Library.AList"
begin

section \<open>Python values and library functions used by the two Lambda functions\<close>

text \<open>
  The two modules \<^verbatim>\<open>port_control.py\<close> and \<^verbatim>\<open>port_status.py\<close> work on values decoded from
  JSON. A Python \<^verbatim>\<open>str\<close> is modelled as a \<^typ>\<open>string\<close> whose characters are the code
  points below 256 (ASCII and Latin-1); every literal of the source is ASCII. A Python
  \<^verbatim>\<open>float\<close> is idealised as a rational number: no statement below depends on binary
  rounding.
\<close>

subsection \<open>Characters and strings\<close>

definition code :: "char \<Rightarrow> nat" where
  "code c = of_char c"

text \<open>\<^verbatim>\<open>str.isspace\<close> on one character: TAB..CR, FS..US, space, NEL and NBSP.\<close>

definition py_isspace :: "char \<Rightarrow> bool" where
  "py_isspace c =
     ((9 \<le> code c \<and> code c \<le> 13) \<or> (28 \<le> code c \<and> code c \<le> 32)
      \<or> code c = 133 \<or> code c = 160)"

text \<open>\<^verbatim>\<open>str.strip()\<close>: whitespace removed at both ends.\<close>

definition py_strip :: "string \<Rightarrow> string" where
  "py_strip s = rev (dropWhile py_isspace (rev (dropWhile py_isspace s)))"

text \<open>
  \<^verbatim>\<open>str.lower()\<close>: the letters A..Z and the Latin-1 capitals (0xC0..0xDE without the
  multiplication sign 0xD7) move up by 32; no other code point below 256 changes.
\<close>

definition lower_char :: "char \<Rightarrow> char" where
  "lower_char c =
     (if (65 \<le> code c \<and> code c \<le> 90) \<or> (192 \<le> code c \<and> code c \<le> 222 \<and> code c \<noteq> 215)
      then char_of (code c + 32) else c)"

definition py_lower :: "string \<Rightarrow> string" where
  "py_lower s = map lower_char s"

text \<open>\<^verbatim>\<open>s.split(sep)\<close> for a separator of one character: never empty, one more part than separators.\<close>

fun py_split :: "char \<Rightarrow> string \<Rightarrow> string list" where
  "py_split sep [] = [[]]"
| "py_split sep (c # cs) =
     (if c = sep then [] # py_split sep cs
      else (case py_split sep cs of [] \<Rightarrow> [[c]] | p # ps \<Rightarrow> (c # p) # ps))"

definition ascii_digit :: "char \<Rightarrow> bool" where
  "ascii_digit c = (48 \<le> code c \<and> code c \<le> 57)"

text \<open>
  \<^verbatim>\<open>str.isdigit()\<close>: the string is not empty and every character is a digit; below 256
  these are 0..9 and the superscripts two, three and one (0xB2, 0xB3, 0xB9).
\<close>

definition py_isdigit :: "string \<Rightarrow> bool" where
  "py_isdigit s =
     (s \<noteq> [] \<and> list_all (\<lambda>c. ascii_digit c \<or> code c = 178 \<or> code c = 179 \<or> code c = 185) s)"

definition digit_val :: "char \<Rightarrow> int" where
  "digit_val c = int (code c) - 48"

definition digits_value :: "string \<Rightarrow> int" where
  "digits_value ds = foldl (\<lambda>a c. 10 * a + digit_val c) 0 ds"

text \<open>The interpreter's default limit on the digits of a decimal string given to \<^verbatim>\<open>int()\<close>.\<close>

definition int_max_str_digits :: nat where
  "int_max_str_digits = 4300"

text \<open>
  Underscores in an \<^verbatim>\<open>int()\<close> literal: single, and between digits only.
\<close>

fun underscores_ok :: "string \<Rightarrow> bool" where
  "underscores_ok [] = True"
| "underscores_ok [c] = (c \<noteq> CHR ''_'')"
| "underscores_ok (c # d # cs) =
     (\<not> (c = CHR ''_'' \<and> d = CHR ''_'') \<and> underscores_ok (d # cs))"

definition parse_unsigned :: "string \<Rightarrow> int option" where
  "parse_unsigned t =
     (if t = [] \<or> hd t = CHR ''_'' \<or> \<not> underscores_ok t
         \<or> \<not> list_all (\<lambda>c. ascii_digit c \<or> c = CHR ''_'') t
      then None
      else let ds = filter (\<lambda>c. c \<noteq> CHR ''_'') t
           in if length ds > int_max_str_digits then None else Some (digits_value ds))"

text \<open>
  The whitespace \<^verbatim>\<open>int()\<close> skips around a numeral: TAB..CR and the space, and NEL and NBSP
  (which it first turns into spaces). It does not skip FS..US, which \<^verbatim>\<open>str.strip\<close> does.
\<close>

definition int_isspace :: "char \<Rightarrow> bool" where
  "int_isspace c = ((9 \<le> code c \<and> code c \<le> 13) \<or> code c = 32 \<or> code c = 133 \<or> code c = 160)"

definition int_strip :: "string \<Rightarrow> string" where
  "int_strip s = rev (dropWhile int_isspace (rev (dropWhile int_isspace s)))"

text \<open>
  \<^verbatim>\<open>int(s)\<close> for a \<^verbatim>\<open>str\<close>: surrounding whitespace, one optional sign, decimal digits.
  \<open>None\<close> stands for the \<^verbatim>\<open>ValueError\<close> the call raises.
\<close>

definition py_int :: "string \<Rightarrow> int option" where
  "py_int s =
     (case int_strip s of
        [] \<Rightarrow> None
      | c # r \<Rightarrow>
          if c = CHR ''-'' then map_option uminus (parse_unsigned r)
          else if c = CHR ''+'' then parse_unsigned r
          else parse_unsigned (c # r))"

text \<open>\<^verbatim>\<open>str(n)\<close> for an \<^verbatim>\<open>int\<close>: the decimal digits, with a minus sign when negative.\<close>

fun str_nat :: "nat \<Rightarrow> string" where
  "str_nat n = (if n < 10 then [char_of (48 + n)] else str_nat (n div 10) @ [char_of (48 + n mod 10)])"

declare str_nat.simps [simp del]

definition str_int :: "int \<Rightarrow> string" where
  "str_int i = (if i < 0 then CHR ''-'' # str_nat (nat (- i)) else str_nat (nat i))"

text \<open>\<^verbatim>\<open>needle in s\<close> for two strings: \<open>needle\<close> occurs in \<open>s\<close> as a contiguous run.\<close>

fun py_contains :: "string \<Rightarrow> string \<Rightarrow> bool" where
  "py_contains needle [] = (needle = [])"
| "py_contains needle (c # cs) = (take (length needle) (c # cs) = needle \<or> py_contains needle cs)"

subsection \<open>JSON values\<close>

text \<open>
  What \<^verbatim>\<open>json.loads\<close> returns and \<^verbatim>\<open>json.dumps\<close> takes. A \<^verbatim>\<open>dict\<close> keeps its keys in
  insertion order: an association list, read with \<^const>\<open>map_of\<close> and written with
  \<^const>\<open>AList.update\<close> (an existing key keeps its place, a new key goes last).
\<close>

datatype json =
    JNull
  | JBool bool
  | JInt int
  | JFloat rat
  | JStr string
  | JArr "json list"
  | JObj "(string \<times> json) list"

text \<open>\<^verbatim>\<open>d.get(k)\<close>: \<^verbatim>\<open>None\<close> when the key is absent.\<close>

definition py_get :: "(string \<times> json) list \<Rightarrow> string \<Rightarrow> json" where
  "py_get d k = (case map_of d k of None \<Rightarrow> JNull | Some v \<Rightarrow> v)"

text \<open>Truth value of an object in a condition.\<close>

fun truthy :: "json \<Rightarrow> bool" where
  "truthy JNull = False"
| "truthy (JBool b) = b"
| "truthy (JInt i) = (i \<noteq> 0)"
| "truthy (JFloat x) = (x \<noteq> 0)"
| "truthy (JStr s) = (s \<noteq> [])"
| "truthy (JArr xs) = (xs \<noteq> [])"
| "truthy (JObj fs) = (fs \<noteq> [])"

text \<open>\<^verbatim>\<open>type(v).__name__\<close>.\<close>

fun type_name :: "json \<Rightarrow> string" where
  "type_name JNull = ''NoneType''"
| "type_name (JBool b) = ''bool''"
| "type_name (JInt i) = ''int''"
| "type_name (JFloat x) = ''float''"
| "type_name (JStr s) = ''str''"
| "type_name (JArr xs) = ''list''"
| "type_name (JObj fs) = ''dict''"

text \<open>
  \<^verbatim>\<open>isinstance(v, int)\<close> holds for integers and for booleans (\<^verbatim>\<open>bool\<close> is a subclass of
  \<^verbatim>\<open>int\<close>); \<open>int_value\<close> is the number such a value counts as in arithmetic and comparisons.
\<close>

fun is_int_instance :: "json \<Rightarrow> bool" where
  "is_int_instance (JInt i) = True"
| "is_int_instance (JBool b) = True"
| "is_int_instance v = False"

fun int_value :: "json \<Rightarrow> int" where
  "int_value (JInt i) = i"
| "int_value (JBool b) = (if b then 1 else 0)"
| "int_value v = 0"

subsection \<open>Exceptions and the collaborators outside the repository\<close>

text \<open>
  The exception classes the handlers tell apart. \<^verbatim>\<open>JSONDecodeError\<close> is a subclass of
  \<^verbatim>\<open>ValueError\<close> and \<^verbatim>\<open>HTTPError\<close> of \<^verbatim>\<open>URLError\<close>: here each constructor is the most
  specific class, \<open>ValueError\<close> carries \<^verbatim>\<open>str(err)\<close>, \<open>HTTPError\<close> the code and the reason,
  \<open>URLError\<close> the reason, and \<open>OtherException\<close> is every class outside these four
  (\<^verbatim>\<open>TypeError\<close>, \<^verbatim>\<open>AttributeError\<close>, ...).
\<close>

datatype exn =
    JSONDecodeError
  | ValueError string
  | HTTPError int string
  | URLError string
  | OtherException string

text \<open>
  What the code calls and does not define: \<^verbatim>\<open>json.loads\<close> on a string, \<^verbatim>\<open>repr\<close> of a
  value (used for floats, containers and quoted strings inside messages), the POST to the
  device with a payload (from \<^verbatim>\<open>urlopen\<close> to \<^verbatim>\<open>decode\<close>: the text of the reply, or the
  exception raised on the way) and the GET of the status endpoint.
\<close>

record runtime =
  loads :: "string \<Rightarrow> exn + json"
  repr_of :: "json \<Rightarrow> string"
  post_device :: "json \<Rightarrow> exn + string"
  get_device :: "exn + string"

text \<open>\<^verbatim>\<open>str(v)\<close>, as an f-string renders a value.\<close>

definition py_str :: "runtime \<Rightarrow> json \<Rightarrow> string" where
  "py_str rt v =
     (case v of
        JNull \<Rightarrow> ''None''
      | JBool b \<Rightarrow> (if b then ''True'' else ''False'')
      | JInt i \<Rightarrow> str_int i
      | JStr s \<Rightarrow> s
      | _ \<Rightarrow> repr_of rt v)"

subsection \<open>What the library makes of the device's answer\<close>





section \<open>\<^verbatim>\<open>parse_bool\<close> (port\_control.py, lines 447-471)\<close>

definition parse_bool :: "runtime \<Rightarrow> json \<Rightarrow> exn + bool" where
  "parse_bool rt v =
     (case v of
        JBool b \<Rightarrow> Inr b
      | JInt i \<Rightarrow>
          if i = 0 \<or> i = 1 then Inr (i \<noteq> 0)
          else Inl (ValueError (''Invalid integer for boolean: '' @ str_int i))
      | JStr s \<Rightarrow>
          (let w = py_lower (py_strip s) in
           if w \<in> set [''true'', ''1'', ''yes'', ''y'', ''on''] then Inr True
           else if w \<in> set [''false'', ''0'', ''no'', ''n'', ''off''] then Inr False
           else Inl (ValueError (''Invalid string for boolean: '' @ repr_of rt (JStr s))))
      | _ \<Rightarrow> Inl (ValueError (''Unsupported type for boolean: '' @ type_name v)))"

section \<open>\<^verbatim>\<open>validate_api_ip\<close> (port\_control.py, lines 39-90; port\_status.py, lines 38-89)\<close>

subsection \<open>The regular expressions of \<^verbatim>\<open>re.match\<close>\<close>

text \<open>
  The two patterns use character classes, sequence, alternation, \<^verbatim>\<open>?\<close>, \<^verbatim>\<open>*\<close>,
  \<^verbatim>\<open>{m,n}\<close>, one lookahead \<^verbatim>\<open>(?=...)\<close> and \<^verbatim>\<open>$\<close>. A class is a list of items:
  one character, a range, or \<^verbatim>\<open>.\<close> (any character but the newline). \<^verbatim>\<open>\d\<close> is the range
  0..9: below 256 no other code point is a decimal digit.
\<close>

datatype citem = Lit char | Span char char | Dot

fun in_citem :: "citem \<Rightarrow> char \<Rightarrow> bool" where
  "in_citem (Lit a) c = (c = a)"
| "in_citem (Span lo hi) c = (code lo \<le> code c \<and> code c \<le> code hi)"
| "in_citem Dot c = (c \<noteq> CHR 0x0A)"

datatype rexp =
    Atom "citem list"
  | Seq rexp rexp
  | Alt rexp rexp
  | Opt rexp
  | Star rexp
  | Rep nat nat rexp
  | Look rexp
  | Dollar

fun rsize :: "rexp \<Rightarrow> nat" where
  "rsize (Atom cs) = 1"
| "rsize (Seq a b) = Suc (rsize a + rsize b)"
| "rsize (Alt a b) = Suc (rsize a + rsize b)"
| "rsize (Opt a) = Suc (rsize a)"
| "rsize (Star a) = Suc (rsize a)"
| "rsize (Rep m n a) = Suc (n + rsize a)"
| "rsize (Look a) = Suc (rsize a)"
| "rsize Dollar = 1"

text \<open>
  \<open>rmatch r s\<close> lists what can remain of \<open>s\<close> after \<open>r\<close> has matched at its start, in
  the order a backtracking matcher tries (greedy first). \<^verbatim>\<open>$\<close> matches at the end of the
  string and before a newline that ends it; a lookahead consumes nothing; an iteration of
  \<^verbatim>\<open>*\<close> that consumes nothing is not repeated.
\<close>

function rmatch :: "rexp \<Rightarrow> string \<Rightarrow> string list" where
  "rmatch (Atom cs) s =
     (case s of [] \<Rightarrow> [] | c # t \<Rightarrow> if list_ex (\<lambda>i. in_citem i c) cs then [t] else [])"
| "rmatch (Seq a b) s = concat (map (rmatch b) (rmatch a s))"
| "rmatch (Alt a b) s = rmatch a s @ rmatch b s"
| "rmatch (Opt a) s = rmatch a s @ [s]"
| "rmatch (Star a) s =
     concat (map (rmatch (Star a)) (filter (\<lambda>t. length t < length s) (rmatch a s))) @ [s]"
| "rmatch (Rep m n a) s =
     (if n = 0 then [] else concat (map (rmatch (Rep (m - 1) (n - 1) a)) (rmatch a s)))
     @ (if m = 0 then [s] else [])"
| "rmatch (Look a) s = (if rmatch a s \<noteq> [] then [s] else [])"
| "rmatch Dollar s = (if s = [] \<or> s = [CHR 0x0A] then [s] else [])"
  by pat_completeness auto
termination
  by (relation "inv_image (less_than <*lex*> less_than) (\<lambda>(r, s). (rsize r, length s))") auto

declare rmatch.simps [simp del]

text \<open>\<^verbatim>\<open>re.match(pattern, s) is not None\<close>: the pattern matches at the start of \<open>s\<close>.\<close>

definition re_match :: "rexp \<Rightarrow> string \<Rightarrow> bool" where
  "re_match r s = (rmatch r s \<noteq> [])"

definition digit_re :: rexp where
  "digit_re = Atom [Span (CHR ''0'') (CHR ''9'')]"

text \<open>\<^verbatim>\<open>(?:25[0-5]|2[0-4]\d|[01]?\d\d?)\<close>\<close>

definition octet_re :: rexp where
  "octet_re =
     Alt (Seq (Atom [Lit (CHR ''2'')]) (Seq (Atom [Lit (CHR ''5'')]) (Atom [Span (CHR ''0'') (CHR ''5'')])))
    (Alt (Seq (Atom [Lit (CHR ''2'')]) (Seq (Atom [Span (CHR ''0'') (CHR ''4'')]) digit_re))
         (Seq (Opt (Atom [Lit (CHR ''0''), Lit (CHR ''1'')])) (Seq digit_re (Opt digit_re))))"

text \<open>
  \<^verbatim>\<open>^(?:(?:25[0-5]|2[0-4]\d|[01]?\d\d?)\.){3}(?:25[0-5]|2[0-4]\d|[01]?\d\d?)$\<close>; the
  leading \<^verbatim>\<open>^\<close> says what \<^verbatim>\<open>re.match\<close> does anyway.
\<close>

definition ipv4_pattern :: rexp where
  "ipv4_pattern =
     Seq (Rep 3 3 (Seq octet_re (Atom [Lit (CHR ''.'')]))) (Seq octet_re Dollar)"

definition alnum_re :: rexp where
  "alnum_re = Atom [Span (CHR ''A'') (CHR ''Z''), Span (CHR ''a'') (CHR ''z''), Span (CHR ''0'') (CHR ''9'')]"

definition alnum_hyphen_re :: rexp where
  "alnum_hyphen_re =
     Atom [Span (CHR ''A'') (CHR ''Z''), Span (CHR ''a'') (CHR ''z''), Span (CHR ''0'') (CHR ''9''),
           Lit (CHR ''-'')]"

text \<open>\<^verbatim>\<open>[A-Za-z0-9](?:[A-Za-z0-9\-]{0,61}[A-Za-z0-9])?\<close>\<close>

definition label_re :: rexp where
  "label_re = Seq alnum_re (Opt (Seq (Rep 0 61 alnum_hyphen_re) alnum_re))"

text \<open>
  \<^verbatim>\<open>^(?=.{1,253}$)(?:LABEL(?:\.(?:LABEL))*)$\<close>
\<close>

definition dns_pattern :: rexp where
  "dns_pattern =
     Seq (Look (Seq (Rep 1 253 (Atom [Dot])) Dollar))
         (Seq (Seq label_re (Star (Seq (Atom [Lit (CHR ''.'')]) label_re))) Dollar)"

subsection \<open>The validator\<close>

text \<open>
  The \<^verbatim>\<open>try\<close> block can raise in \<^verbatim>\<open>int(port_str)\<close> only; \<^verbatim>\<open>except Exception\<close> then
  returns \<^verbatim>\<open>False\<close>.
\<close>

definition validate_api_ip :: "string \<Rightarrow> bool" where
  "validate_api_ip ip_str =
     (if ip_str = [] then False
      else if list_ex (\<lambda>ch. ch \<in> set ip_str)
                [CHR ''@'', CHR ''/'', CHR 0x5C, CHR ''?'', CHR ''#''] then False
      else
        let parts = py_split (CHR '':'') ip_str in
        if length parts > 2 then False
        else
          let host = hd parts;
              port_str = (if length parts = 2 then Some (parts ! 1) else None)
          in
          if \<not> (host = ''localhost'' \<or> re_match ipv4_pattern host \<or> re_match dns_pattern host)
          then False
          else
            (case port_str of
               None \<Rightarrow> True
             | Some ps \<Rightarrow>
                 if \<not> py_isdigit ps then False
                 else (case py_int ps of
                         None \<Rightarrow> False
                       | Some port \<Rightarrow> if port < 1 \<or> port > 65535 then False else True)))"

section \<open>Configuration, timing and the response envelope\<close>

text \<open>
  The module-level settings read from the environment that the handlers consult, and the
  two readings of \<^verbatim>\<open>time.time()\<close>: one on entry and one when the envelope is built
  (every path reads the clock at most once after entry).
\<close>

record config =
  API_TOKEN :: string
  PORT_OFFSET :: bool

text \<open>
  \<^verbatim>\<open>round(x, 2)\<close>: to the nearest hundredth, a tie going to the even neighbour. This is
  the rounding of the exact number; the code rounds a binary double, whose value can lie
  just off a tie that the exact number hits, so the last digit may differ. No statement
  below depends on which hundredth is chosen.
\<close>

definition py_round2 :: "rat \<Rightarrow> rat" where
  "py_round2 x =
     (let y = x * 100; f = \<lfloor>y\<rfloor>; d = y - of_int f
      in of_int (if d < 1 / 2 then f else if d > 1 / 2 then f + 1
                 else if even f then f else f + 1) / 100)"

definition execution_time_ms :: "rat \<Rightarrow> rat \<Rightarrow> rat" where
  "execution_time_ms start_time now = py_round2 ((now - start_time) * 1000)"

text \<open>
  The returned dictionary. \<open>body\<close> holds the value handed to \<^verbatim>\<open>json.dumps\<close>; the
  serialised text is not modelled.
\<close>

record envelope =
  statusCode :: int
  headers :: "(string \<times> string) list"
  body :: json

definition response :: "int \<Rightarrow> json \<Rightarrow> envelope" where
  "response c b =
     \<lparr>statusCode = c, headers = [(''Content-Type'', ''application/json'')], body = b\<rparr>"

definition error_body :: "string \<Rightarrow> rat \<Rightarrow> json" where
  "error_body msg t = JObj [(''error'', JStr msg), (''executionTimeMs'', JFloat t)]"

section \<open>\<^verbatim>\<open>control_port\<close> (port\_control.py, lines 111-198)\<close>

text \<open>Lines 135-152: the port parameter is checked and converted to the device's numbering.\<close>

definition api_port_of :: "config \<Rightarrow> runtime \<Rightarrow> json \<Rightarrow> exn + json" where
  "api_port_of cfg rt port =
     (if is_int_instance port then
        (if PORT_OFFSET cfg then
           (if int_value port < 1 \<or> int_value port > 12 then
              Inl (ValueError
                (''FireBreak port must be an integer between 1 and 12 (physical numbering), got: ''
                 @ py_str rt port))
            else Inr (JInt (int_value port - 1)))
         else
           (if int_value port < 0 \<or> int_value port > 11 then
              Inl (ValueError
                (''FireBreak port must be an integer between 0 and 11 (API numbering), got: ''
                 @ py_str rt port))
            else Inr port))
      else if port = JStr ''all'' then Inr (JStr ''all'')
      else
        Inl (ValueError
          (''FireBreak port must be an integer (''
           @ (if PORT_OFFSET cfg then ''1-12'' else ''0-11'') @ '', ''
           @ (if PORT_OFFSET cfg then ''physical'' else ''API'')
           @ '' numbering) or 'all', got: '' @ py_str rt port)))"

text \<open>\<^verbatim>\<open>v + 1\<close>: defined on numbers; a \<^verbatim>\<open>TypeError\<close> on anything else.\<close>

fun add_one :: "json \<Rightarrow> exn + json" where
  "add_one (JInt i) = Inr (JInt (i + 1))"
| "add_one (JBool b) = Inr (JInt ((if b then 1 else 0) + 1))"
| "add_one (JFloat x) = Inr (JFloat (x + 1))"
| "add_one v = Inl (OtherException ''TypeError'')"

text \<open>
  \<^verbatim>\<open>d['port'] = d['port'] + 1\<close> on a dictionary that has the key.
\<close>

definition bump_port :: "(string \<times> json) list \<Rightarrow> json \<Rightarrow> exn + json" where
  "bump_port fs p =
     (case add_one p of Inl e \<Rightarrow> Inl e | Inr q \<Rightarrow> Inr (JObj (AList.update ''port'' q fs)))"

text \<open>
  One round of the loop over the reply list (lines 192-194; port\_status.py, lines 149-151):
  \<^verbatim>\<open>'port' in port_data\<close> is a key test on a dictionary, a substring test on a string, a
  membership test on a list and a \<^verbatim>\<open>TypeError\<close> on every other value; where it holds,
  \<^verbatim>\<open>port_data['port']\<close> is defined on a dictionary only.
\<close>

definition offset_entry :: "json \<Rightarrow> exn + json" where
  "offset_entry port_data =
     (case port_data of
        JObj fs \<Rightarrow>
          (case map_of fs ''port'' of None \<Rightarrow> Inr port_data | Some p \<Rightarrow> bump_port fs p)
      | JStr s \<Rightarrow>
          if py_contains ''port'' s then Inl (OtherException ''TypeError'') else Inr port_data
      | JArr xs \<Rightarrow>
          if JStr ''port'' \<in> set xs then Inl (OtherException ''TypeError'') else Inr port_data
      | _ \<Rightarrow> Inl (OtherException ''TypeError''))"

fun offset_entries :: "json list \<Rightarrow> exn + json list" where
  "offset_entries [] = Inr []"
| "offset_entries (x # xs) =
     (case offset_entry x of
        Inl e \<Rightarrow> Inl e
      | Inr y \<Rightarrow> (case offset_entries xs of Inl e \<Rightarrow> Inl e | Inr ys \<Rightarrow> Inr (y # ys)))"

text \<open>Lines 182-198: the device's numbering is converted back in the reply.\<close>

definition offset_response :: "config \<Rightarrow> json \<Rightarrow> exn + json" where
  "offset_response cfg raw_response =
     (if PORT_OFFSET cfg then
        (case raw_response of
           JObj fs \<Rightarrow>
             (case map_of fs ''port'' of None \<Rightarrow> Inr raw_response | Some p \<Rightarrow> bump_port fs p)
         | JArr xs \<Rightarrow>
             (case offset_entries xs of Inl e \<Rightarrow> Inl e | Inr ys \<Rightarrow> Inr (JArr ys))
         | _ \<Rightarrow> Inr raw_response)
      else Inr raw_response)"

text \<open>Lines 154-158: the payload that is serialised and posted.\<close>

definition payload :: "json \<Rightarrow> bool \<Rightarrow> json" where
  "payload api_port activate = JObj [(''port'', api_port), (''activate'', JBool activate)]"

text \<open>
  Lines 160-198: the payload is posted, the reply decoded and its numbering converted back.
\<close>

definition device_call :: "config \<Rightarrow> runtime \<Rightarrow> json \<Rightarrow> bool \<Rightarrow> exn + json" where
  "device_call cfg rt api_port activate =
     (case post_device rt (payload api_port activate) of
        Inl e \<Rightarrow> Inl e
      | Inr reply \<Rightarrow>
          (case loads rt reply of
             Inl e \<Rightarrow> Inl e
           | Inr raw_response \<Rightarrow> offset_response cfg raw_response))"

definition control_port :: "config \<Rightarrow> runtime \<Rightarrow> json \<Rightarrow> bool \<Rightarrow> exn + json" where
  "control_port cfg rt port activate =
     (case api_port_of cfg rt port of
        Inl e \<Rightarrow> Inl e
      | Inr api_port \<Rightarrow> device_call cfg rt api_port activate)"

section \<open>\<^verbatim>\<open>lambda_handler\<close> of port\_control.py (lines 201-445)\<close>

text \<open>\<^verbatim>\<open>except ValueError\<close> also catches the subclass \<^verbatim>\<open>JSONDecodeError\<close>.\<close>

fun is_value_error :: "exn \<Rightarrow> bool" where
  "is_value_error JSONDecodeError = True"
| "is_value_error (ValueError m) = True"
| "is_value_error e = False"

text \<open>Lines 346-365: the result is wrapped with the execution time.\<close>

definition wrap_result :: "json \<Rightarrow> rat \<Rightarrow> exn + envelope" where
  "wrap_result result t =
     (case result of
        JArr xs \<Rightarrow> Inr (response 200 (JObj [(''ports'', result), (''executionTimeMs'', JFloat t)]))
      | JObj fs \<Rightarrow> Inr (response 200 (JObj (AList.update ''executionTimeMs'' (JFloat t) fs)))
      | _ \<Rightarrow> Inl (OtherException ''TypeError''))"

text \<open>
  Lines 297-314: a port given as a string is the word \<^verbatim>\<open>all\<close> in any casing, or is read
  as an integer; \<open>Inl\<close> is the string that \<^verbatim>\<open>int\<close> refused.
\<close>

definition normalize_port :: "json \<Rightarrow> string + json" where
  "normalize_port port =
     (case port of
        JStr s \<Rightarrow>
          if py_lower s = ''all'' then Inr (JStr ''all'')
          else (case py_int s of None \<Rightarrow> Inl s | Some i \<Rightarrow> Inr (JInt i))
      | _ \<Rightarrow> Inr port)"

text \<open>
  Lines 274-365: the parameters are checked, the port and the flag are normalised, the
  device is called and its result wrapped. \<open>Inr\<close> is a \<^verbatim>\<open>return\<close> inside the
  \<^verbatim>\<open>try\<close> block, \<open>Inl\<close> an exception that leaves it.
\<close>

definition handle_request :: "config \<Rightarrow> runtime \<Rightarrow> rat \<Rightarrow> json \<Rightarrow> json \<Rightarrow> exn + envelope" where
  "handle_request cfg rt t port activate =
     (if port = JNull then
        Inr (response 400 (error_body ''Missing required parameter: port'' t))
      else if activate = JNull then
        Inr (response 400 (error_body ''Missing required parameter: activate'' t))
      else
        (case normalize_port port of
           Inl s \<Rightarrow>
             Inr (response 400
               (error_body (''FireBreak port must be a number (0-11) or 'all', got: '' @ s) t))
         | Inr p \<Rightarrow>
             (case parse_bool rt activate of
                Inl e \<Rightarrow>
                  if is_value_error e then
                    Inr (response 400
                      (error_body
                        ''Invalid value for 'activate': expected boolean (true/false) or equivalent'' t))
                  else Inl e
              | Inr act \<Rightarrow>
                  (case control_port cfg rt p act of
                     Inl e \<Rightarrow> Inl e
                   | Inr result \<Rightarrow> wrap_result result t))))"

text \<open>
  Lines 251-272: the parameters come from the JSON text under \<^verbatim>\<open>body\<close> when the event has
  a true value there, and from the event itself otherwise. \<^verbatim>\<open>json.loads\<close> of a value that
  is not a string and \<^verbatim>\<open>.get\<close> on a decoded value that is not a dictionary raise. The
  result is an exception, the envelope returned at once for a body that is not JSON, or
  the pair of \<^verbatim>\<open>port\<close> and \<^verbatim>\<open>activate\<close>.
\<close>

definition extract_params ::
  "runtime \<Rightarrow> (string \<times> json) list \<Rightarrow> exn + (envelope + json \<times> json)" where
  "extract_params rt event =
     (if map_of event ''body'' \<noteq> None \<and> truthy (py_get event ''body'') then
        (case py_get event ''body'' of
           JStr b \<Rightarrow>
             (case loads rt b of
                Inl e \<Rightarrow>
                  if e = JSONDecodeError then
                    Inr (Inl (response 400 (JObj [(''error'', JStr ''Invalid JSON in request body'')])))
                  else Inl e
              | Inr body_data \<Rightarrow>
                  (case body_data of
                     JObj d \<Rightarrow> Inr (Inr (py_get d ''port'', py_get d ''activate''))
                   | _ \<Rightarrow> Inl (OtherException ''AttributeError'')))
         | _ \<Rightarrow> Inl (OtherException ''TypeError''))
      else Inr (Inr (py_get event ''port'', py_get event ''activate'')))"

text \<open>Lines 251-365: the \<^verbatim>\<open>try\<close> block.\<close>

definition try_block :: "config \<Rightarrow> runtime \<Rightarrow> rat \<Rightarrow> (string \<times> json) list \<Rightarrow> exn + envelope" where
  "try_block cfg rt t event =
     (case extract_params rt event of
        Inl e \<Rightarrow> Inl e
      | Inr (Inl early) \<Rightarrow> Inr early
      | Inr (Inr (port, activate)) \<Rightarrow> handle_request cfg rt t port activate)"

text \<open>Lines 367-445: the \<^verbatim>\<open>except\<close> clauses, in the order of the source.\<close>

fun except_clauses :: "exn \<Rightarrow> rat \<Rightarrow> envelope" where
  "except_clauses JSONDecodeError t =
     response 500 (error_body ''Invalid JSON response from Goldilock FireBreak API'' t)"
| "except_clauses (ValueError m) t = response 400 (error_body m t)"
| "except_clauses (HTTPError c reason) t =
     response c (error_body (''Goldilock FireBreak API HTTP error: '' @ reason) t)"
| "except_clauses (URLError reason) t =
     response 502
       (error_body (''Goldilock FireBreak API URL error: <urlopen error '' @ reason @ ''>'') t)"
| "except_clauses (OtherException m) t =
     response 500
       (error_body ''Unexpected error occurred while controlling Goldilock FireBreak API'' t)"

text \<open>The handler: the credential check (lines 238-249), then the \<^verbatim>\<open>try\<close> statement.\<close>

definition lambda_handler ::
  "config \<Rightarrow> runtime \<Rightarrow> rat \<Rightarrow> rat \<Rightarrow> (string \<times> json) list \<Rightarrow> envelope" where
  "lambda_handler cfg rt start_time now event =
     (let t = execution_time_ms start_time now in
      if API_TOKEN cfg = [] then
        response 500 (error_body ''API_TOKEN environment variable is missing'' t)
      else
        (case try_block cfg rt t event of
           Inr r \<Rightarrow> r
         | Inl e \<Rightarrow> except_clauses e t))"

section \<open>port\_status.py: \<^verbatim>\<open>fetch_port_status\<close> (lines 110-155) and \<^verbatim>\<open>lambda_handler\<close> (lines 158-279)\<close>

definition fetch_port_status :: "config \<Rightarrow> runtime \<Rightarrow> exn + json" where
  "fetch_port_status cfg rt =
     (case get_device rt of
        Inl e \<Rightarrow> Inl e
      | Inr text \<Rightarrow>
          (case loads rt text of
             Inl e \<Rightarrow> Inl e
           | Inr raw_data \<Rightarrow>
               (case raw_data of
                  JArr xs \<Rightarrow>
                    if PORT_OFFSET cfg then
                      (case offset_entries xs of Inl e \<Rightarrow> Inl e | Inr ys \<Rightarrow> Inr (JArr ys))
                    else Inr raw_data
                | _ \<Rightarrow> Inr raw_data)))"

text \<open>\<^verbatim>\<open>len(data)\<close> is defined on strings, lists and dictionaries.\<close>

fun has_len :: "json \<Rightarrow> bool" where
  "has_len (JStr s) = True"
| "has_len (JArr xs) = True"
| "has_len (JObj fs) = True"
| "has_len v = False"

text \<open>Lines 197-215: the \<^verbatim>\<open>try\<close> block of the status handler.\<close>

definition status_try_block :: "config \<Rightarrow> runtime \<Rightarrow> rat \<Rightarrow> exn + envelope" where
  "status_try_block cfg rt t =
     (case fetch_port_status cfg rt of
        Inl e \<Rightarrow> Inl e
      | Inr data \<Rightarrow>
          if has_len data then
            Inr (response 200 (JObj [(''ports'', data), (''executionTimeMs'', JFloat t)]))
          else Inl (OtherException ''TypeError''))"

text \<open>
  Lines 217-279: the \<^verbatim>\<open>except\<close> clauses, in the order of the source. A
  \<^verbatim>\<open>ValueError\<close> has no clause of its own here and falls to the last one.
\<close>

fun status_except_clauses :: "exn \<Rightarrow> rat \<Rightarrow> envelope" where
  "status_except_clauses (HTTPError c reason) t =
     response c (error_body (''Goldilock FireBreak API HTTP error: '' @ reason) t)"
| "status_except_clauses (URLError reason) t =
     response 502
       (error_body (''Goldilock FireBreak API URL error: <urlopen error '' @ reason @ ''>'') t)"
| "status_except_clauses JSONDecodeError t =
     response 500 (error_body ''Invalid JSON response from Goldilock FireBreak API'' t)"
| "status_except_clauses e t =
     response 500
       (error_body ''Unexpected error occurred while querying Goldilock FireBreak API'' t)"

text \<open>The handler of the status module; the event is not read.\<close>

definition status_lambda_handler ::
  "config \<Rightarrow> runtime \<Rightarrow> rat \<Rightarrow> rat \<Rightarrow> (string \<times> json) list \<Rightarrow> envelope" where
  "status_lambda_handler cfg rt start_time now event =
     (let t = execution_time_ms start_time now in
      if API_TOKEN cfg = [] then
        response 500 (error_body ''API_TOKEN environment variable is missing'' t)
      else
        (case status_try_block cfg rt t of
           Inr r \<Rightarrow> r
         | Inl e \<Rightarrow> status_except_clauses e t))"

section \<open>A device and a decoder for running the model on examples\<close>

text \<open>
  Two replies of the device, the decoder restricted to them (every other text is refused
  here), and a device that answers a request for all ports with the list and any other
  request with the single status.
\<close>

definition single_reply :: string where
  "single_reply = ''{\"port\": 11, \"active\": false}''"

definition all_reply :: string where
  "all_reply = ''[{\"port\": 0, \"active\": true}, {\"port\": 1, \"active\": true}]''"

definition demo_loads :: "string \<Rightarrow> exn + json" where
  "demo_loads s =
     (if s = single_reply then Inr (JObj [(''port'', JInt 11), (''active'', JBool False)])
      else if s = all_reply then
        Inr (JArr [JObj [(''port'', JInt 0), (''active'', JBool True)],
                   JObj [(''port'', JInt 1), (''active'', JBool True)]])
      else Inl JSONDecodeError)"

definition demo_runtime :: runtime where
  "demo_runtime =
     \<lparr>loads = demo_loads,
      repr_of = (\<lambda>v. ''<repr>''),
      post_device =
        (\<lambda>p. case p of
           JObj fs \<Rightarrow> if py_get fs ''port'' = JStr ''all'' then Inr all_reply else Inr single_reply
         | _ \<Rightarrow> Inl (URLError ''unreachable'')),
      get_device = Inr all_reply\<rparr>"

definition demo_config :: "bool \<Rightarrow> config" where
  "demo_config physical = \<lparr>API_TOKEN = ''secret'', PORT_OFFSET = physical\<rparr>"

text \<open>A device that answers every request with one object whose port is the word \<^verbatim>\<open>all\<close>.\<close>

definition sentinel_reply :: string where
  "sentinel_reply = ''{\"port\": \"all\", \"active\": true}''"

definition sentinel_runtime :: runtime where
  "sentinel_runtime =
     \<lparr>loads =
        (\<lambda>s. if s = sentinel_reply
             then Inr (JObj [(''port'', JStr ''all''), (''active'', JBool True)])
             else demo_loads s),
      repr_of = (\<lambda>v. ''<repr>''),
      post_device = (\<lambda>p. Inr sentinel_reply),
      get_device = Inr sentinel_reply\<rparr>"

section \<open>The vocabulary of the claims\<close>

text \<open>
  The body of an envelope is an object whose field \<^verbatim>\<open>executionTimeMs\<close> is the float \<open>t\<close>.
\<close>

definition timed_body :: "rat \<Rightarrow> envelope \<Rightarrow> bool" where
  "timed_body t r =
     (case body r of JObj fs \<Rightarrow> map_of fs ''executionTimeMs'' = Some (JFloat t) | _ \<Rightarrow> False)"

text \<open>
  The request as the specification words it. Section 4.5: the parameters are read from the
  JSON object in the body when the event has one, and from the event itself otherwise; a
  port string that is \<^verbatim>\<open>all\<close> in any casing is the sentinel and any other string is read as
  an integer. Section 4.2: the flag is a boolean, the integer 0 or 1, or one of ten words.
  Section 4.3: a port is valid within 1..12 under physical numbering and within 0..11
  otherwise, and is sent as itself less one under physical numbering and unchanged
  otherwise; the sentinel is sent unchanged.
\<close>

definition carries :: "runtime \<Rightarrow> (string \<times> json) list \<Rightarrow> json \<Rightarrow> json \<Rightarrow> bool" where
  "carries rt event port activate =
     (if truthy (py_get event ''body'') then
        (case py_get event ''body'' of
           JStr b \<Rightarrow>
             (case loads rt b of
                Inr (JObj d) \<Rightarrow> port = py_get d ''port'' \<and> activate = py_get d ''activate''
              | _ \<Rightarrow> False)
         | _ \<Rightarrow> False)
      else port = py_get event ''port'' \<and> activate = py_get event ''activate'')"

definition port_denoted :: "json \<Rightarrow> json option" where
  "port_denoted port =
     (case port of
        JStr s \<Rightarrow> if py_lower s = ''all'' then Some (JStr ''all'') else map_option JInt (py_int s)
      | _ \<Rightarrow> Some port)"

definition flag_of :: "json \<Rightarrow> bool option" where
  "flag_of v =
     (case v of
        JBool b \<Rightarrow> Some b
      | JInt i \<Rightarrow> if i = 0 then Some False else if i = 1 then Some True else None
      | JStr s \<Rightarrow>
          if py_lower (py_strip s) \<in> set [''true'', ''1'', ''yes'', ''y'', ''on''] then Some True
          else if py_lower (py_strip s) \<in> set [''false'', ''0'', ''no'', ''n'', ''off'']
          then Some False
          else None
      | _ \<Rightarrow> None)"

definition in_range :: "config \<Rightarrow> int \<Rightarrow> bool" where
  "in_range cfg p = (if PORT_OFFSET cfg then 1 \<le> p \<and> p \<le> 12 else 0 \<le> p \<and> p \<le> 11)"

definition device_port :: "config \<Rightarrow> json \<Rightarrow> json option" where
  "device_port cfg v =
     (if v = JStr ''all'' then Some (JStr ''all'')
      else if is_int_instance v \<and> in_range cfg (int_value v)
      then Some (if PORT_OFFSET cfg then JInt (int_value v - 1) else v)
      else None)"

text \<open>
  Host strings as the specification describes them, written from its words and not from
  the patterns: a DNS name is a sequence of labels separated by dots, each of 1 to 63
  letters, digits and hyphens with no hyphen first or last, of total length at most 253;
  an IPv4 address is four decimal octets of value 0 to 255 separated by dots; a port suffix
  is a decimal numeral of value 1 to 65535 (within the interpreter's limit on digits).
\<close>

definition is_alnum :: "char \<Rightarrow> bool" where
  "is_alnum c =
     ((48 \<le> code c \<and> code c \<le> 57) \<or> (65 \<le> code c \<and> code c \<le> 90) \<or> (97 \<le> code c \<and> code c \<le> 122))"

definition spec_label :: "string \<Rightarrow> bool" where
  "spec_label l =
     (l \<noteq> [] \<and> length l \<le> 63 \<and> list_all (\<lambda>c. is_alnum c \<or> c = CHR ''-'') l
      \<and> is_alnum (hd l) \<and> is_alnum (last l))"

definition spec_dns_name :: "string \<Rightarrow> bool" where
  "spec_dns_name h = (length h \<le> 253 \<and> list_all spec_label (py_split (CHR ''.'') h))"

definition spec_octet :: "string \<Rightarrow> bool" where
  "spec_octet ds = (ds \<noteq> [] \<and> length ds \<le> 3 \<and> list_all ascii_digit ds \<and> digits_value ds \<le> 255)"

definition spec_ipv4 :: "string \<Rightarrow> bool" where
  "spec_ipv4 h =
     (length (py_split (CHR ''.'') h) = 4 \<and> list_all spec_octet (py_split (CHR ''.'') h))"

definition spec_host :: "string \<Rightarrow> bool" where
  "spec_host h = (h = ''localhost'' \<or> spec_ipv4 h \<or> spec_dns_name h)"

definition spec_port_suffix :: "string \<Rightarrow> bool" where
  "spec_port_suffix ps =
     (ps \<noteq> [] \<and> length ps \<le> int_max_str_digits \<and> list_all ascii_digit ps
      \<and> 1 \<le> digits_value ps \<and> digits_value ps \<le> 65535)"

text \<open>
  A dotted string of digits: labels of 1 to 63 digits separated by dots, of total length at
  most 253.
\<close>

definition dotted_digits :: "string \<Rightarrow> bool" where
  "dotted_digits h =
     (length h \<le> 253
      \<and> list_all (\<lambda>l. l \<noteq> [] \<and> length l \<le> 63 \<and> list_all ascii_digit l) (py_split (CHR ''.'') h))"

section \<open>The boolean coercion\<close>

text \<open>
  C5. \<open>parse_bool\<close> returns a boolean unchanged; on an integer it succeeds on 0 and 1
  only, giving False and True; on a string it strips whitespace and lower-cases, gives
  True exactly on true, 1, yes, y, on, False exactly on false, 0, no, n, off, and fails on
  every other string; it fails on a value of any other type.
\<close>

theorem parse_bool_spec:
  "parse_bool rt (JBool b) = Inr b
   \<and> parse_bool rt (JInt i) =
       (if i = 0 then Inr False else if i = 1 then Inr True
        else Inl (ValueError (''Invalid integer for boolean: '' @ str_int i)))
   \<and> (parse_bool rt (JStr s) = Inr True
        \<longleftrightarrow> py_lower (py_strip s) \<in> {''true'', ''1'', ''yes'', ''y'', ''on''})
   \<and> (parse_bool rt (JStr s) = Inr False
        \<longleftrightarrow> py_lower (py_strip s) \<in> {''false'', ''0'', ''no'', ''n'', ''off''})
   \<and> (py_lower (py_strip s)
          \<notin> {''true'', ''1'', ''yes'', ''y'', ''on'', ''false'', ''0'', ''no'', ''n'', ''off''}
        \<longrightarrow> parse_bool rt (JStr s)
            = Inl (ValueError (''Invalid string for boolean: '' @ repr_of rt (JStr s))))
   \<and> ((\<forall>b. v \<noteq> JBool b) \<and> (\<forall>i. v \<noteq> JInt i) \<and> (\<forall>s. v \<noteq> JStr s)
        \<longrightarrow> parse_bool rt v
            = Inl (ValueError (''Unsupported type for boolean: '' @ type_name v)))"
  by (cases v) (auto simp: parse_bool_def Let_def)

theorem parse_bool_spec_witness:
  "parse_bool demo_runtime (JBool True) = Inr True
   \<and> parse_bool demo_runtime (JInt 2) = Inl (ValueError ''Invalid integer for boolean: 2'')
   \<and> parse_bool demo_runtime (JStr '' YES '') = Inr True
   \<and> parse_bool demo_runtime (JStr ''Off'') = Inr False
   \<and> parse_bool demo_runtime (JStr ''maybe'')
       = Inl (ValueError ''Invalid string for boolean: <repr>'')
   \<and> parse_bool demo_runtime (JFloat 1) = Inl (ValueError ''Unsupported type for boolean: float'')"
proof -
  have a: "py_lower (py_strip '' YES '') = ''yes''" by code_simp
  have b: "py_lower (py_strip ''Off'') = ''off''" by code_simp
  have c: "py_lower (py_strip ''maybe'') = ''maybe''" by code_simp
  have d: "str_int 2 = ''2''" by code_simp
  have r: "repr_of demo_runtime (JStr ''maybe'') = ''<repr>''" by (simp add: demo_runtime_def)
  show ?thesis
    using parse_bool_spec [of demo_runtime True 2 "'' YES ''" "JFloat 1"]
      parse_bool_spec [of demo_runtime True 2 "''Off''" "JFloat 1"]
      parse_bool_spec [of demo_runtime True 2 "''maybe''" "JFloat 1"]
    by (simp add: a b c d r)
qed

section \<open>Port numbering\<close>

lemma api_port_of_int:
  "api_port_of cfg rt (JInt p) =
     (if PORT_OFFSET cfg then
        (if p < 1 \<or> p > 12 then
           Inl (ValueError
             (''FireBreak port must be an integer between 1 and 12 (physical numbering), got: ''
              @ str_int p))
         else Inr (JInt (p - 1)))
      else
        (if p < 0 \<or> p > 11 then
           Inl (ValueError
             (''FireBreak port must be an integer between 0 and 11 (API numbering), got: ''
              @ str_int p))
         else Inr (JInt p)))"
  by (simp add: api_port_of_def py_str_def)

lemma offset_response_object:
  "map_of fs ''port'' = Some (JInt q) \<Longrightarrow>
   offset_response cfg (JObj fs) =
     Inr (JObj (AList.update ''port'' (JInt (if PORT_OFFSET cfg then q + 1 else q)) fs))"
  by (simp add: offset_response_def bump_port_def update_triv)

lemma offset_response_singleton:
  "map_of fs ''port'' = Some (JInt q) \<Longrightarrow>
   offset_response cfg (JArr [JObj fs]) =
     Inr (JArr [JObj (AList.update ''port'' (JInt (if PORT_OFFSET cfg then q + 1 else q)) fs)])"
  by (simp add: offset_response_def offset_entry_def bump_port_def update_triv)

text \<open>
  C3. With physical numbering off, the forward translation maps every port in 0..11 to
  itself; with physical numbering on, it maps every port p in 1..12 to p - 1. For a valid
  port under either mode, the translation of a reply (one status object, or a list holding
  it) that carries the translated port gives the caller's port back, and so does
  \<open>control_port\<close> when the device answers with the port it was sent.
\<close>

theorem port_translation_round_trip:
  "(\<not> PORT_OFFSET cfg \<and> 0 \<le> p \<and> p \<le> 11 \<longrightarrow> api_port_of cfg rt (JInt p) = Inr (JInt p))
   \<and> (PORT_OFFSET cfg \<and> 1 \<le> p \<and> p \<le> 12 \<longrightarrow> api_port_of cfg rt (JInt p) = Inr (JInt (p - 1)))
   \<and> ((if PORT_OFFSET cfg then 1 \<le> p \<and> p \<le> 12 else 0 \<le> p \<and> p \<le> 11)
        \<and> api_port_of cfg rt (JInt p) = Inr q \<and> map_of fs ''port'' = Some q
      \<longrightarrow> offset_response cfg (JObj fs) = Inr (JObj (AList.update ''port'' (JInt p) fs))
          \<and> offset_response cfg (JArr [JObj fs])
              = Inr (JArr [JObj (AList.update ''port'' (JInt p) fs)])
          \<and> (post_device rt (payload q act) = Inr reply \<and> loads rt reply = Inr (JObj fs)
              \<longrightarrow> control_port cfg rt (JInt p) act
                  = Inr (JObj (AList.update ''port'' (JInt p) fs))))"
proof (intro conjI impI)
  assume "\<not> PORT_OFFSET cfg \<and> 0 \<le> p \<and> p \<le> 11"
  then show "api_port_of cfg rt (JInt p) = Inr (JInt p)"
    by (simp add: api_port_of_int)
next
  assume "PORT_OFFSET cfg \<and> 1 \<le> p \<and> p \<le> 12"
  then show "api_port_of cfg rt (JInt p) = Inr (JInt (p - 1))"
    by (simp add: api_port_of_int)
next
  assume h: "(if PORT_OFFSET cfg then 1 \<le> p \<and> p \<le> 12 else 0 \<le> p \<and> p \<le> 11)
      \<and> api_port_of cfg rt (JInt p) = Inr q \<and> map_of fs ''port'' = Some q"
  then have q: "q = JInt (if PORT_OFFSET cfg then p - 1 else p)"
    by (auto simp: api_port_of_int split: if_splits)
  with h have m: "map_of fs ''port'' = Some (JInt (if PORT_OFFSET cfg then p - 1 else p))"
    by simp
  show "offset_response cfg (JObj fs) = Inr (JObj (AList.update ''port'' (JInt p) fs))"
    using offset_response_object [OF m, of cfg] by simp
  show "offset_response cfg (JArr [JObj fs])
      = Inr (JArr [JObj (AList.update ''port'' (JInt p) fs)])"
    using offset_response_singleton [OF m, of cfg] by simp
next
  assume h: "(if PORT_OFFSET cfg then 1 \<le> p \<and> p \<le> 12 else 0 \<le> p \<and> p \<le> 11)
      \<and> api_port_of cfg rt (JInt p) = Inr q \<and> map_of fs ''port'' = Some q"
    and d: "post_device rt (payload q act) = Inr reply \<and> loads rt reply = Inr (JObj fs)"
  from h have q: "q = JInt (if PORT_OFFSET cfg then p - 1 else p)"
    by (auto simp: api_port_of_int split: if_splits)
  with h have m: "map_of fs ''port'' = Some (JInt (if PORT_OFFSET cfg then p - 1 else p))"
    by simp
  have "control_port cfg rt (JInt p) act = offset_response cfg (JObj fs)"
    using h d by (simp add: control_port_def device_call_def)
  then show "control_port cfg rt (JInt p) act = Inr (JObj (AList.update ''port'' (JInt p) fs))"
    using offset_response_object [OF m, of cfg] by simp
qed

lemma demo_post_single:
  "post_device demo_runtime (payload (JInt 11) False) = Inr single_reply"
  by (simp add: demo_runtime_def payload_def py_get_def)

lemma demo_loads_single:
  "loads demo_runtime single_reply = Inr (JObj [(''port'', JInt 11), (''active'', JBool False)])"
  by (simp add: demo_runtime_def demo_loads_def)

theorem port_translation_round_trip_witness:
  "api_port_of (demo_config True) demo_runtime (JInt 12) = Inr (JInt 11)
   \<and> offset_response (demo_config True) (JObj [(''port'', JInt 11), (''active'', JBool False)])
       = Inr (JObj [(''port'', JInt 12), (''active'', JBool False)])
   \<and> control_port (demo_config True) demo_runtime (JInt 12) False
       = Inr (JObj [(''port'', JInt 12), (''active'', JBool False)])
   \<and> api_port_of (demo_config False) demo_runtime (JInt 0) = Inr (JInt 0)"
  using port_translation_round_trip [of "demo_config True" 12 demo_runtime "JInt 11"
      "[(''port'', JInt 11), (''active'', JBool False)]" False single_reply]
    port_translation_round_trip [of "demo_config False" 0 demo_runtime "JInt 0"
      "[(''port'', JInt 0)]" False single_reply]
    demo_post_single demo_loads_single
  by (simp add: demo_config_def)

section \<open>The handler of the activation module\<close>

lemma extract_params_direct:
  "map_of event ''body'' = None \<or> \<not> truthy (py_get event ''body'') \<Longrightarrow>
   extract_params rt event = Inr (Inr (py_get event ''port'', py_get event ''activate''))"
  by (auto simp: extract_params_def)

lemma extract_params_body:
  "py_get event ''body'' = JStr b \<Longrightarrow> b \<noteq> [] \<Longrightarrow> loads rt b = Inr (JObj d) \<Longrightarrow>
   extract_params rt event = Inr (Inr (py_get d ''port'', py_get d ''activate''))"
  by (auto simp: extract_params_def py_get_def split: option.splits)

lemma extract_params_invalid_json:
  "py_get event ''body'' = JStr b \<Longrightarrow> b \<noteq> [] \<Longrightarrow> loads rt b = Inl JSONDecodeError \<Longrightarrow>
   extract_params rt event
     = Inr (Inl (response 400 (JObj [(''error'', JStr ''Invalid JSON in request body'')])))"
  by (auto simp: extract_params_def py_get_def split: option.splits)

lemma lambda_handler_params:
  "API_TOKEN cfg \<noteq> [] \<Longrightarrow> extract_params rt event = Inr (Inr (port, activate)) \<Longrightarrow>
   lambda_handler cfg rt t0 t1 event =
     (case handle_request cfg rt (execution_time_ms t0 t1) port activate of
        Inr r \<Rightarrow> r
      | Inl e \<Rightarrow> except_clauses e (execution_time_ms t0 t1))"
  by (simp add: lambda_handler_def try_block_def Let_def)

lemma handle_request_valid:
  "port \<noteq> JNull \<Longrightarrow> normalize_port port = Inr p \<Longrightarrow> parse_bool rt activate = Inr act \<Longrightarrow>
   handle_request cfg rt t port activate =
     (case control_port cfg rt p act of Inl e \<Rightarrow> Inl e | Inr result \<Rightarrow> wrap_result result t)"
  by (auto simp: handle_request_def parse_bool_def)

lemma normalize_port_not_null:
  "normalize_port port = Inr p \<Longrightarrow> p \<noteq> JNull \<Longrightarrow> port \<noteq> JNull"
  by (auto simp: normalize_port_def)

text \<open>
  C6. For every integer port outside the range of the active numbering (1..12 with
  physical numbering, 0..11 without), \<open>control_port\<close> fails with a \<open>ValueError\<close> whose
  message names the numbering and its range, and the handler answers 400 with that message
  (for an event whose port is that integer, or a string read as it, and whose flag is a
  boolean or an equivalent).
\<close>

theorem port_out_of_range:
  "\<not> (if PORT_OFFSET cfg then 1 \<le> p \<and> p \<le> 12 else 0 \<le> p \<and> p \<le> 11) \<Longrightarrow>
   control_port cfg rt (JInt p) act
     = Inl (ValueError
         ((if PORT_OFFSET cfg
           then ''FireBreak port must be an integer between 1 and 12 (physical numbering), got: ''
           else ''FireBreak port must be an integer between 0 and 11 (API numbering), got: '')
          @ str_int p))
   \<and> (API_TOKEN cfg \<noteq> [] \<and> extract_params rt event = Inr (Inr (port, activate))
        \<and> normalize_port port = Inr (JInt p) \<and> parse_bool rt activate = Inr act
      \<longrightarrow> lambda_handler cfg rt t0 t1 event
          = response 400
              (error_body
                ((if PORT_OFFSET cfg
                  then ''FireBreak port must be an integer between 1 and 12 (physical numbering), got: ''
                  else ''FireBreak port must be an integer between 0 and 11 (API numbering), got: '')
                 @ str_int p)
                (execution_time_ms t0 t1)))"
proof (intro conjI impI)
  assume r: "\<not> (if PORT_OFFSET cfg then 1 \<le> p \<and> p \<le> 12 else 0 \<le> p \<and> p \<le> 11)"
  then show c: "control_port cfg rt (JInt p) act
     = Inl (ValueError
         ((if PORT_OFFSET cfg
           then ''FireBreak port must be an integer between 1 and 12 (physical numbering), got: ''
           else ''FireBreak port must be an integer between 0 and 11 (API numbering), got: '')
          @ str_int p))"
    by (auto simp: control_port_def api_port_of_int split: if_splits)
  assume h: "API_TOKEN cfg \<noteq> [] \<and> extract_params rt event = Inr (Inr (port, activate))
        \<and> normalize_port port = Inr (JInt p) \<and> parse_bool rt activate = Inr act"
  then have n: "port \<noteq> JNull"
    by (auto dest: normalize_port_not_null)
  show "lambda_handler cfg rt t0 t1 event
          = response 400
              (error_body
                ((if PORT_OFFSET cfg
                  then ''FireBreak port must be an integer between 1 and 12 (physical numbering), got: ''
                  else ''FireBreak port must be an integer between 0 and 11 (API numbering), got: '')
                 @ str_int p)
                (execution_time_ms t0 t1))"
    using h n c by (simp add: lambda_handler_params handle_request_valid)
qed

theorem port_out_of_range_witness:
  "control_port (demo_config True) demo_runtime (JInt 13) False
     = Inl (ValueError
         ''FireBreak port must be an integer between 1 and 12 (physical numbering), got: 13'')
   \<and> lambda_handler (demo_config True) demo_runtime 0 1
        [(''port'', JStr ''13''), (''activate'', JStr ''off'')]
      = response 400
          (error_body
            ''FireBreak port must be an integer between 1 and 12 (physical numbering), got: 13''
            (execution_time_ms 0 1))"
proof -
  have s: "str_int 13 = ''13''" by code_simp
  have n: "normalize_port (JStr ''13'') = Inr (JInt 13)" by code_simp
  have b: "parse_bool demo_runtime (JStr ''off'') = Inr False" by code_simp
  have e: "extract_params demo_runtime [(''port'', JStr ''13''), (''activate'', JStr ''off'')]
      = Inr (Inr (JStr ''13'', JStr ''off''))"
    by (simp add: extract_params_direct py_get_def)
  show ?thesis
    using port_out_of_range [of "demo_config True" 13 demo_runtime False
        "[(''port'', JStr ''13''), (''activate'', JStr ''off'')]" "JStr ''13''" "JStr ''off''" 0 1]
      s n b e
    by (simp add: demo_config_def)
qed

section \<open>The request of the specification and the code that reads it\<close>

lemma truthy_get: "truthy (py_get event k) \<Longrightarrow> map_of event k \<noteq> None"
  by (cases "map_of event k") (simp_all add: py_get_def)

lemma carries_extract:
  "carries rt event port activate \<Longrightarrow> extract_params rt event = Inr (Inr (port, activate))"
  by (auto simp: carries_def extract_params_def truthy_get
      split: if_splits json.splits sum.splits)

lemma flag_of_Some: "flag_of v = Some b \<Longrightarrow> parse_bool rt v = Inr b"
  by (auto simp: flag_of_def parse_bool_def Let_def split: json.splits if_splits)


lemma port_denoted_Some: "port_denoted port = Some v \<Longrightarrow> normalize_port port = Inr v"
  by (auto simp: port_denoted_def normalize_port_def split: json.splits if_splits)


lemma device_port_Some: "device_port cfg v = Some q \<Longrightarrow> api_port_of cfg rt v = Inr q"
  by (auto simp: device_port_def api_port_of_def in_range_def split: if_splits)


lemma control_port_posts:
  "api_port_of cfg rt v = Inr q \<Longrightarrow>
   control_port cfg rt v a =
     (case post_device rt (payload q a) of
        Inl e \<Rightarrow> Inl e
      | Inr reply \<Rightarrow>
          (case loads rt reply of
             Inl e \<Rightarrow> Inl e
           | Inr raw \<Rightarrow> offset_response cfg raw))"
  by (simp add: control_port_def device_call_def)

lemma handler_valid_request:
  assumes "API_TOKEN cfg \<noteq> []" "carries rt event port activate" "port \<noteq> JNull"
    "port_denoted port = Some v" "flag_of activate = Some a" "device_port cfg v = Some q"
  shows "lambda_handler cfg rt t0 t1 event =
     (case post_device rt (payload q a) of
        Inl e \<Rightarrow> except_clauses e (execution_time_ms t0 t1)
      | Inr reply \<Rightarrow>
          (case loads rt reply of
             Inl e \<Rightarrow> except_clauses e (execution_time_ms t0 t1)
           | Inr raw \<Rightarrow>
               (case offset_response cfg raw of
                  Inl e \<Rightarrow> except_clauses e (execution_time_ms t0 t1)
                | Inr result \<Rightarrow>
                    (case wrap_result result (execution_time_ms t0 t1) of
                       Inl e \<Rightarrow> except_clauses e (execution_time_ms t0 t1)
                     | Inr r \<Rightarrow> r))))"
proof -
  have "lambda_handler cfg rt t0 t1 event =
     (case handle_request cfg rt (execution_time_ms t0 t1) port activate of
        Inr r \<Rightarrow> r
      | Inl e \<Rightarrow> except_clauses e (execution_time_ms t0 t1))"
    using assms(1) carries_extract [OF assms(2)] by (rule lambda_handler_params)
  moreover have "handle_request cfg rt (execution_time_ms t0 t1) port activate =
     (case control_port cfg rt v a of
        Inl e \<Rightarrow> Inl e
      | Inr result \<Rightarrow> wrap_result result (execution_time_ms t0 t1))"
    using assms(3) port_denoted_Some [OF assms(4)] flag_of_Some [OF assms(5)]
    by (rule handle_request_valid)
  ultimately show ?thesis
    using control_port_posts [OF device_port_Some [OF assms(6)], of rt a]
    by (simp split: sum.splits)
qed

lemma sentinel_not_null: "port_denoted port = Some v \<Longrightarrow> v \<noteq> JNull \<Longrightarrow> port \<noteq> JNull"
  by (auto simp: port_denoted_def)

lemma offset_response_sentinel:
  "map_of fs ''port'' = Some (JStr ''all'') \<Longrightarrow>
   offset_response cfg (JObj fs)
     = (if PORT_OFFSET cfg then Inl (OtherException ''TypeError'') else Inr (JObj fs))"
  by (simp add: offset_response_def bump_port_def)

text \<open>
  C7 (as amended). A port string that is the word \<^verbatim>\<open>all\<close> in any casing denotes the
  sentinel: on the way to the device it passes the translation unchanged under either
  numbering, with no arithmetic, and the payload that is posted has the port \<^verbatim>\<open>all\<close>;
  the handler's answer is what the reply to that payload gives. On the way back the code
  knows no sentinel: with physical numbering it adds 1 to the port field of the reply,
  which raises on a field that holds \<^verbatim>\<open>all\<close>, and without it the reply is left as it is.
  Every other string that \<^verbatim>\<open>int\<close> refuses is answered with 400 and the message of an
  invalid port (when the flag is present; when it is missing the answer is 400 as well).
\<close>

theorem all_ports_sentinel:
  "(py_lower s = ''all'' \<longrightarrow>
      port_denoted (JStr s) = Some (JStr ''all'')
      \<and> normalize_port (JStr s) = Inr (JStr ''all'')
      \<and> api_port_of cfg rt (JStr ''all'') = Inr (JStr ''all'')
      \<and> control_port cfg rt (JStr ''all'') act
          = (case post_device rt (JObj [(''port'', JStr ''all''), (''activate'', JBool act)]) of
               Inl e \<Rightarrow> Inl e
             | Inr reply \<Rightarrow>
                 (case loads rt reply of
                    Inl e \<Rightarrow> Inl e
                  | Inr raw \<Rightarrow> offset_response cfg raw))
      \<and> (API_TOKEN cfg \<noteq> [] \<and> carries rt event (JStr s) activate \<and> flag_of activate = Some act
          \<longrightarrow> lambda_handler cfg rt t0 t1 event =
               (case post_device rt (JObj [(''port'', JStr ''all''), (''activate'', JBool act)]) of
                  Inl e \<Rightarrow> except_clauses e (execution_time_ms t0 t1)
                | Inr reply \<Rightarrow>
                    (case loads rt reply of
                       Inl e \<Rightarrow> except_clauses e (execution_time_ms t0 t1)
                     | Inr raw \<Rightarrow>
                         (case offset_response cfg raw of
                            Inl e \<Rightarrow> except_clauses e (execution_time_ms t0 t1)
                          | Inr result \<Rightarrow>
                              (case wrap_result result (execution_time_ms t0 t1) of
                                 Inl e \<Rightarrow> except_clauses e (execution_time_ms t0 t1)
                               | Inr r \<Rightarrow> r))))))
   \<and> (py_lower s \<noteq> ''all'' \<and> py_int s = None \<longrightarrow>
      normalize_port (JStr s) = Inl s
      \<and> (API_TOKEN cfg \<noteq> [] \<and> carries rt event (JStr s) activate
          \<longrightarrow> statusCode (lambda_handler cfg rt t0 t1 event) = 400
              \<and> (activate \<noteq> JNull \<longrightarrow>
                   lambda_handler cfg rt t0 t1 event
                     = response 400
                         (error_body
                           (''FireBreak port must be a number (0-11) or 'all', got: '' @ s)
                           (execution_time_ms t0 t1)))))
   \<and> (map_of fs ''port'' = Some (JStr ''all'') \<longrightarrow>
      offset_response cfg (JObj fs)
        = (if PORT_OFFSET cfg then Inl (OtherException ''TypeError'') else Inr (JObj fs))
      \<and> offset_response cfg (JArr [JObj fs])
        = (if PORT_OFFSET cfg then Inl (OtherException ''TypeError'') else Inr (JArr [JObj fs])))"
proof (intro conjI impI)
  assume a: "py_lower s = ''all''"
  then show d: "port_denoted (JStr s) = Some (JStr ''all'')"
    by (simp add: port_denoted_def)
  from a show "normalize_port (JStr s) = Inr (JStr ''all'')"
    by (simp add: normalize_port_def)
  show p: "api_port_of cfg rt (JStr ''all'') = Inr (JStr ''all'')"
    by (simp add: api_port_of_def)
  from control_port_posts [OF p, of act]
  show "control_port cfg rt (JStr ''all'') act
          = (case post_device rt (JObj [(''port'', JStr ''all''), (''activate'', JBool act)]) of
               Inl e \<Rightarrow> Inl e
             | Inr reply \<Rightarrow>
                 (case loads rt reply of
                    Inl e \<Rightarrow> Inl e
                  | Inr raw \<Rightarrow> offset_response cfg raw))"
    by (simp add: payload_def)
  assume h: "API_TOKEN cfg \<noteq> [] \<and> carries rt event (JStr s) activate \<and> flag_of activate = Some act"
  have q: "device_port cfg (JStr ''all'') = Some (JStr ''all'')"
    by (simp add: device_port_def)
  from h have h1: "API_TOKEN cfg \<noteq> []" and h2: "carries rt event (JStr s) activate"
    and h3: "flag_of activate = Some act" by simp_all
  have n: "JStr s \<noteq> JNull" by simp
  from handler_valid_request [OF h1 h2 n d h3 q, of t0 t1]
  show "lambda_handler cfg rt t0 t1 event =
               (case post_device rt (JObj [(''port'', JStr ''all''), (''activate'', JBool act)]) of
                  Inl e \<Rightarrow> except_clauses e (execution_time_ms t0 t1)
                | Inr reply \<Rightarrow>
                    (case loads rt reply of
                       Inl e \<Rightarrow> except_clauses e (execution_time_ms t0 t1)
                     | Inr raw \<Rightarrow>
                         (case offset_response cfg raw of
                            Inl e \<Rightarrow> except_clauses e (execution_time_ms t0 t1)
                          | Inr result \<Rightarrow>
                              (case wrap_result result (execution_time_ms t0 t1) of
                                 Inl e \<Rightarrow> except_clauses e (execution_time_ms t0 t1)
                               | Inr r \<Rightarrow> r))))"
    by (simp add: payload_def)
next
  assume a: "py_lower s \<noteq> ''all'' \<and> py_int s = None"
  then show n: "normalize_port (JStr s) = Inl s"
    by (simp add: normalize_port_def)
  assume h: "API_TOKEN cfg \<noteq> [] \<and> carries rt event (JStr s) activate"
  then have e: "extract_params rt event = Inr (Inr (JStr s, activate))"
    by (simp add: carries_extract)
  with h n show "statusCode (lambda_handler cfg rt t0 t1 event) = 400"
    by (simp add: lambda_handler_params handle_request_def response_def)
  assume "activate \<noteq> JNull"
  with h e n show "lambda_handler cfg rt t0 t1 event
                     = response 400
                         (error_body
                           (''FireBreak port must be a number (0-11) or 'all', got: '' @ s)
                           (execution_time_ms t0 t1))"
    by (simp add: lambda_handler_params handle_request_def)
next
  assume "map_of fs ''port'' = Some (JStr ''all'')"
  then show "offset_response cfg (JObj fs)
        = (if PORT_OFFSET cfg then Inl (OtherException ''TypeError'') else Inr (JObj fs))"
    by (rule offset_response_sentinel)
next
  assume "map_of fs ''port'' = Some (JStr ''all'')"
  then show "offset_response cfg (JArr [JObj fs])
        = (if PORT_OFFSET cfg then Inl (OtherException ''TypeError'') else Inr (JArr [JObj fs]))"
    by (simp add: offset_response_def offset_entry_def bump_port_def)
qed

lemma demo_all_post:
  "post_device demo_runtime (JObj [(''port'', JStr ''all''), (''activate'', JBool True)])
     = Inr all_reply"
  by (simp add: demo_runtime_def py_get_def)

lemma demo_all_loads:
  "loads demo_runtime all_reply
     = Inr (JArr [JObj [(''port'', JInt 0), (''active'', JBool True)],
                  JObj [(''port'', JInt 1), (''active'', JBool True)]])"
  by (simp add: demo_runtime_def demo_loads_def all_reply_def single_reply_def)

lemma demo_all_offset:
  "offset_response (demo_config True)
     (JArr [JObj [(''port'', JInt 0), (''active'', JBool True)],
            JObj [(''port'', JInt 1), (''active'', JBool True)]])
   = Inr (JArr [JObj [(''port'', JInt 1), (''active'', JBool True)],
                JObj [(''port'', JInt 2), (''active'', JBool True)]])"
  by (simp add: offset_response_def offset_entry_def bump_port_def demo_config_def)

theorem all_ports_sentinel_witness:
  "lambda_handler (demo_config True) demo_runtime 0 1
     [(''port'', JStr ''ALL''), (''activate'', JBool True)]
   = response 200
       (JObj [(''ports'', JArr [JObj [(''port'', JInt 1), (''active'', JBool True)],
                               JObj [(''port'', JInt 2), (''active'', JBool True)]]),
              (''executionTimeMs'', JFloat (execution_time_ms 0 1))])
   \<and> lambda_handler (demo_config True) demo_runtime 0 1
       [(''port'', JStr ''some''), (''activate'', JBool True)]
     = response 400
         (error_body ''FireBreak port must be a number (0-11) or 'all', got: some''
           (execution_time_ms 0 1))
   \<and> offset_response (demo_config True) (JObj [(''port'', JStr ''all'')])
     = Inl (OtherException ''TypeError'')"
proof -
  have l: "py_lower ''ALL'' = ''all''" by code_simp
  have m: "py_lower ''some'' \<noteq> ''all''" by code_simp
  have i: "py_int ''some'' = None" by code_simp
  have b: "flag_of (JBool True) = Some True" by (simp add: flag_of_def)
  have e: "carries demo_runtime [(''port'', JStr ''ALL''), (''activate'', JBool True)]
      (JStr ''ALL'') (JBool True)"
    "carries demo_runtime [(''port'', JStr ''some''), (''activate'', JBool True)]
      (JStr ''some'') (JBool True)"
    by (simp_all add: carries_def py_get_def)
  have t: "API_TOKEN (demo_config True) \<noteq> []" "PORT_OFFSET (demo_config True)"
    by (simp_all add: demo_config_def)
  show ?thesis
    using all_ports_sentinel [of "''ALL''" "demo_config True" demo_runtime True
        "[(''port'', JStr ''ALL''), (''activate'', JBool True)]" "JBool True" 0 1
        "[(''port'', JStr ''all'')]"]
      all_ports_sentinel [of "''some''" "demo_config True" demo_runtime True
        "[(''port'', JStr ''some''), (''activate'', JBool True)]" "JBool True" 0 1
        "[(''port'', JStr ''all'')]"]
      l m i b e t demo_all_post demo_all_loads demo_all_offset
    by (simp add: wrap_result_def)
qed

theorem all_ports_sentinel_counterexample:
  "lambda_handler (demo_config True) sentinel_runtime 0 1
     [(''port'', JStr ''all''), (''activate'', JBool True)]
   = response 500
       (error_body ''Unexpected error occurred while controlling Goldilock FireBreak API''
         (execution_time_ms 0 1))
   \<and> control_port (demo_config True) sentinel_runtime (JStr ''all'') True
     = Inl (OtherException ''TypeError'')
   \<and> control_port (demo_config False) sentinel_runtime (JStr ''all'') True
     = Inr (JObj [(''port'', JStr ''all''), (''active'', JBool True)])"
proof -
  have c: "control_port (demo_config True) sentinel_runtime (JStr ''all'') True
     = Inl (OtherException ''TypeError'')"
    "control_port (demo_config False) sentinel_runtime (JStr ''all'') True
     = Inr (JObj [(''port'', JStr ''all''), (''active'', JBool True)])"
    by (simp_all add: control_port_def api_port_of_def device_call_def sentinel_runtime_def
        offset_response_def bump_port_def demo_config_def)
  have e: "extract_params sentinel_runtime [(''port'', JStr ''all''), (''activate'', JBool True)]
      = Inr (Inr (JStr ''all'', JBool True))"
    by (simp add: extract_params_direct py_get_def)
  have n: "normalize_port (JStr ''all'') = Inr (JStr ''all'')" by code_simp
  have b: "parse_bool sentinel_runtime (JBool True) = Inr True" by (simp add: parse_bool_def)
  have t: "API_TOKEN (demo_config True) \<noteq> []" by (simp add: demo_config_def)
  have "lambda_handler (demo_config True) sentinel_runtime 0 1
     [(''port'', JStr ''all''), (''activate'', JBool True)]
   = response 500
       (error_body ''Unexpected error occurred while controlling Goldilock FireBreak API''
         (execution_time_ms 0 1))"
    using t e n b c(1) by (simp add: lambda_handler_params handle_request_valid)
  with c show ?thesis by simp
qed

text \<open>
  C10 (as amended). A boolean port passes the integer check as 0 or 1. With physical
  numbering off it is sent unchanged, as the JSON boolean and not as the integer; with
  physical numbering on, \<^verbatim>\<open>true\<close> is sent as the integer 0 and \<^verbatim>\<open>false\<close> fails the
  range check.
\<close>

theorem boolean_port:
  "(\<not> PORT_OFFSET cfg \<longrightarrow>
      api_port_of cfg rt (JBool b) = Inr (JBool b)
      \<and> control_port cfg rt (JBool b) act = device_call cfg rt (JBool b) act
      \<and> payload (JBool b) act = JObj [(''port'', JBool b), (''activate'', JBool act)])
   \<and> (PORT_OFFSET cfg \<longrightarrow>
      api_port_of cfg rt (JBool True) = Inr (JInt 0)
      \<and> control_port cfg rt (JBool True) act = device_call cfg rt (JInt 0) act
      \<and> control_port cfg rt (JBool False) act
          = Inl (ValueError
              ''FireBreak port must be an integer between 1 and 12 (physical numbering), got: False''))"
  by (simp add: api_port_of_def control_port_def payload_def py_str_def)

theorem boolean_port_witness:
  "control_port (demo_config False) demo_runtime (JBool True) True
     = device_call (demo_config False) demo_runtime (JBool True) True
   \<and> control_port (demo_config True) demo_runtime (JBool True) True
     = device_call (demo_config True) demo_runtime (JInt 0) True"
  using boolean_port [of "demo_config False" demo_runtime True True]
    boolean_port [of "demo_config True" demo_runtime True]
  by (simp add: demo_config_def)

theorem boolean_port_counterexample:
  "api_port_of (demo_config False) demo_runtime (JBool True) \<noteq> Inr (JInt 1)
   \<and> payload (JBool True) False \<noteq> payload (JInt 1) False
   \<and> control_port (demo_config False)
        (demo_runtime\<lparr>post_device :=
           (\<lambda>p. if p = payload (JInt 1) False then Inr single_reply
                else Inl (HTTPError 422 ''Unprocessable Entity''))\<rparr>)
        (JBool True) False
      = Inl (HTTPError 422 ''Unprocessable Entity'')
   \<and> control_port (demo_config False)
        (demo_runtime\<lparr>post_device :=
           (\<lambda>p. if p = payload (JInt 1) False then Inr single_reply
                else Inl (HTTPError 422 ''Unprocessable Entity''))\<rparr>)
        (JInt 1) False
      = Inr (JObj [(''port'', JInt 11), (''active'', JBool False)])"
  by (simp add: api_port_of_def control_port_def device_call_def payload_def demo_config_def
      demo_runtime_def demo_loads_def offset_response_def)

section \<open>Envelopes: wrapping, status codes and timing\<close>

lemma lambda_handler_no_token:
  "API_TOKEN cfg = [] \<Longrightarrow>
   lambda_handler cfg rt t0 t1 event
     = response 500 (error_body ''API_TOKEN environment variable is missing'' (execution_time_ms t0 t1))"
  by (simp add: lambda_handler_def Let_def)

lemma status_lambda_handler_no_token:
  "API_TOKEN cfg = [] \<Longrightarrow>
   status_lambda_handler cfg rt t0 t1 event
     = response 500 (error_body ''API_TOKEN environment variable is missing'' (execution_time_ms t0 t1))"
  by (simp add: status_lambda_handler_def Let_def)

lemma lambda_handler_try:
  "API_TOKEN cfg \<noteq> [] \<Longrightarrow>
   lambda_handler cfg rt t0 t1 event =
     (case try_block cfg rt (execution_time_ms t0 t1) event of
        Inr r \<Rightarrow> r
      | Inl e \<Rightarrow> except_clauses e (execution_time_ms t0 t1))"
  by (simp add: lambda_handler_def Let_def)

lemma status_lambda_handler_try:
  "API_TOKEN cfg \<noteq> [] \<Longrightarrow>
   status_lambda_handler cfg rt t0 t1 event =
     (case status_try_block cfg rt (execution_time_ms t0 t1) of
        Inr r \<Rightarrow> r
      | Inl e \<Rightarrow> status_except_clauses e (execution_time_ms t0 t1))"
  by (simp add: status_lambda_handler_def Let_def)

lemma try_block_params:
  "extract_params rt event = Inr (Inr (port, activate)) \<Longrightarrow>
   try_block cfg rt t event = handle_request cfg rt t port activate"
  by (simp add: try_block_def)

text \<open>
  C8 (as amended). On success the handler of the activation module wraps a list result as
  an object with the two fields \<^verbatim>\<open>ports\<close> and \<^verbatim>\<open>executionTimeMs\<close>, and merges
  \<^verbatim>\<open>executionTimeMs\<close> into an object result, whose other fields stay at the top level
  with their values. The handler of the status module makes no such difference: it puts
  whatever the device answered (a list, and an object or a string as well) under
  \<^verbatim>\<open>ports\<close>, next to \<^verbatim>\<open>executionTimeMs\<close>.
\<close>

theorem result_wrapping:
  "wrap_result (JArr xs) t
     = Inr (response 200 (JObj [(''ports'', JArr xs), (''executionTimeMs'', JFloat t)]))
   \<and> wrap_result (JObj fs) t
     = Inr (response 200 (JObj (AList.update ''executionTimeMs'' (JFloat t) fs)))
   \<and> map_of (AList.update ''executionTimeMs'' (JFloat t) fs) k
     = (if k = ''executionTimeMs'' then Some (JFloat t) else map_of fs k)
   \<and> (API_TOKEN cfg \<noteq> [] \<and> extract_params rt event = Inr (Inr (port, activate))
        \<and> port \<noteq> JNull \<and> normalize_port port = Inr p \<and> parse_bool rt activate = Inr act
      \<longrightarrow> (control_port cfg rt p act = Inr (JArr xs)
           \<longrightarrow> lambda_handler cfg rt t0 t1 event
               = response 200
                   (JObj [(''ports'', JArr xs),
                          (''executionTimeMs'', JFloat (execution_time_ms t0 t1))]))
         \<and> (control_port cfg rt p act = Inr (JObj fs)
           \<longrightarrow> lambda_handler cfg rt t0 t1 event
               = response 200
                   (JObj (AList.update ''executionTimeMs'' (JFloat (execution_time_ms t0 t1)) fs))))
   \<and> (API_TOKEN cfg \<noteq> [] \<and> fetch_port_status cfg rt = Inr (JArr xs)
      \<longrightarrow> status_lambda_handler cfg rt t0 t1 event
          = response 200
              (JObj [(''ports'', JArr xs), (''executionTimeMs'', JFloat (execution_time_ms t0 t1))]))
   \<and> (API_TOKEN cfg \<noteq> [] \<and> fetch_port_status cfg rt = Inr data \<and> has_len data
      \<longrightarrow> status_lambda_handler cfg rt t0 t1 event
          = response 200
              (JObj [(''ports'', data), (''executionTimeMs'', JFloat (execution_time_ms t0 t1))]))
   \<and> (API_TOKEN cfg \<noteq> [] \<and> get_device rt = Inr reply \<and> loads rt reply = Inr (JObj gs)
      \<longrightarrow> status_lambda_handler cfg rt t0 t1 event
          = response 200
              (JObj [(''ports'', JObj gs),
                     (''executionTimeMs'', JFloat (execution_time_ms t0 t1))]))"
proof (intro conjI impI)
  show "wrap_result (JArr xs) t
     = Inr (response 200 (JObj [(''ports'', JArr xs), (''executionTimeMs'', JFloat t)]))"
    by (simp add: wrap_result_def)
  show "wrap_result (JObj fs) t
     = Inr (response 200 (JObj (AList.update ''executionTimeMs'' (JFloat t) fs)))"
    by (simp add: wrap_result_def)
  show "map_of (AList.update ''executionTimeMs'' (JFloat t) fs) k
     = (if k = ''executionTimeMs'' then Some (JFloat t) else map_of fs k)"
    by (simp add: update_conv')
next
  assume h: "API_TOKEN cfg \<noteq> [] \<and> extract_params rt event = Inr (Inr (port, activate))
        \<and> port \<noteq> JNull \<and> normalize_port port = Inr p \<and> parse_bool rt activate = Inr act"
    and c: "control_port cfg rt p act = Inr (JArr xs)"
  then show "lambda_handler cfg rt t0 t1 event
               = response 200
                   (JObj [(''ports'', JArr xs),
                          (''executionTimeMs'', JFloat (execution_time_ms t0 t1))])"
    by (simp add: lambda_handler_params handle_request_valid wrap_result_def)
next
  assume h: "API_TOKEN cfg \<noteq> [] \<and> extract_params rt event = Inr (Inr (port, activate))
        \<and> port \<noteq> JNull \<and> normalize_port port = Inr p \<and> parse_bool rt activate = Inr act"
    and c: "control_port cfg rt p act = Inr (JObj fs)"
  then show "lambda_handler cfg rt t0 t1 event
               = response 200
                   (JObj (AList.update ''executionTimeMs'' (JFloat (execution_time_ms t0 t1)) fs))"
    by (simp add: lambda_handler_params handle_request_valid wrap_result_def)
next
  assume "API_TOKEN cfg \<noteq> [] \<and> fetch_port_status cfg rt = Inr (JArr xs)"
  then show "status_lambda_handler cfg rt t0 t1 event
          = response 200
              (JObj [(''ports'', JArr xs), (''executionTimeMs'', JFloat (execution_time_ms t0 t1))])"
    by (simp add: status_lambda_handler_try status_try_block_def)
next
  assume "API_TOKEN cfg \<noteq> [] \<and> fetch_port_status cfg rt = Inr data \<and> has_len data"
  then show "status_lambda_handler cfg rt t0 t1 event
          = response 200
              (JObj [(''ports'', data), (''executionTimeMs'', JFloat (execution_time_ms t0 t1))])"
    by (simp add: status_lambda_handler_try status_try_block_def)
next
  assume "API_TOKEN cfg \<noteq> [] \<and> get_device rt = Inr reply \<and> loads rt reply = Inr (JObj gs)"
  then show "status_lambda_handler cfg rt t0 t1 event
          = response 200
              (JObj [(''ports'', JObj gs),
                     (''executionTimeMs'', JFloat (execution_time_ms t0 t1))])"
    by (simp add: status_lambda_handler_try status_try_block_def fetch_port_status_def)
qed

lemma demo_single_control:
  "control_port (demo_config True) demo_runtime (JInt 12) False
     = Inr (JObj [(''port'', JInt 12), (''active'', JBool False)])"
  by (simp add: control_port_def api_port_of_int device_call_def demo_runtime_def demo_loads_def
      payload_def py_get_def offset_response_def bump_port_def demo_config_def)

lemma demo_all_control:
  "control_port (demo_config False) demo_runtime (JStr ''all'') True
     = Inr (JArr [JObj [(''port'', JInt 0), (''active'', JBool True)],
                  JObj [(''port'', JInt 1), (''active'', JBool True)]])"
  by (simp add: control_port_def api_port_of_def device_call_def demo_runtime_def demo_loads_def
      payload_def py_get_def offset_response_def demo_config_def all_reply_def single_reply_def)

lemma demo_fetch:
  "fetch_port_status (demo_config True) demo_runtime
     = Inr (JArr [JObj [(''port'', JInt 1), (''active'', JBool True)],
                  JObj [(''port'', JInt 2), (''active'', JBool True)]])"
  by (simp add: fetch_port_status_def demo_runtime_def demo_loads_def demo_config_def
      offset_entry_def bump_port_def all_reply_def single_reply_def)

theorem result_wrapping_witness:
  "lambda_handler (demo_config False) demo_runtime 0 1
     [(''port'', JStr ''all''), (''activate'', JBool True)]
   = response 200
       (JObj [(''ports'', JArr [JObj [(''port'', JInt 0), (''active'', JBool True)],
                               JObj [(''port'', JInt 1), (''active'', JBool True)]]),
              (''executionTimeMs'', JFloat (execution_time_ms 0 1))])
   \<and> lambda_handler (demo_config True) demo_runtime 0 1
       [(''port'', JInt 12), (''activate'', JBool False)]
     = response 200
         (JObj [(''port'', JInt 12), (''active'', JBool False),
                (''executionTimeMs'', JFloat (execution_time_ms 0 1))])
   \<and> status_lambda_handler (demo_config True) demo_runtime 0 1
       [(''port'', JInt 12), (''activate'', JBool False)]
     = response 200
         (JObj [(''ports'', JArr [JObj [(''port'', JInt 1), (''active'', JBool True)],
                                 JObj [(''port'', JInt 2), (''active'', JBool True)]]),
                (''executionTimeMs'', JFloat (execution_time_ms 0 1))])"
proof -
  have e: "extract_params demo_runtime [(''port'', JStr ''all''), (''activate'', JBool True)]
      = Inr (Inr (JStr ''all'', JBool True))"
    "extract_params demo_runtime [(''port'', JInt 12), (''activate'', JBool False)]
      = Inr (Inr (JInt 12, JBool False))"
    by (simp_all add: extract_params_direct py_get_def)
  have n: "normalize_port (JStr ''all'') = Inr (JStr ''all'')"
    "normalize_port (JInt 12) = Inr (JInt 12)"
    by (simp_all add: normalize_port_def py_lower_def lower_char_def code_def)
  have b: "parse_bool demo_runtime (JBool True) = Inr True"
    "parse_bool demo_runtime (JBool False) = Inr False"
    by (simp_all add: parse_bool_def)
  show ?thesis
    using result_wrapping [of "[JObj [(''port'', JInt 0), (''active'', JBool True)],
                  JObj [(''port'', JInt 1), (''active'', JBool True)]]" 0
          "[(''port'', JInt 12), (''active'', JBool False)]" "''port''"
          "demo_config False" demo_runtime "[(''port'', JStr ''all''), (''activate'', JBool True)]"
          "JStr ''all''" "JBool True" "JStr ''all''" True 0 1]
      result_wrapping [of "[JObj [(''port'', JInt 1), (''active'', JBool True)],
                  JObj [(''port'', JInt 2), (''active'', JBool True)]]" 0
          "[(''port'', JInt 12), (''active'', JBool False)]" "''port''"
          "demo_config True" demo_runtime "[(''port'', JInt 12), (''activate'', JBool False)]"
          "JInt 12" "JBool False" "JInt 12" False 0 1]
      e n b demo_single_control demo_all_control demo_fetch
    by (simp add: demo_config_def)
qed

theorem result_wrapping_counterexample:
  "status_lambda_handler (demo_config False)
     (demo_runtime\<lparr>get_device := Inr single_reply\<rparr>) 0 1 []
   = response 200
       (JObj [(''ports'', JObj [(''port'', JInt 11), (''active'', JBool False)]),
              (''executionTimeMs'', JFloat (execution_time_ms 0 1))])
   \<and> status_lambda_handler (demo_config False)
       (demo_runtime\<lparr>get_device := Inr single_reply\<rparr>) 0 1 []
     \<noteq> response 200
         (JObj [(''port'', JInt 11), (''active'', JBool False),
                (''executionTimeMs'', JFloat (execution_time_ms 0 1))])"
  by (simp add: status_lambda_handler_try status_try_block_def fetch_port_status_def
      demo_runtime_def demo_loads_def demo_config_def response_def)

lemma api_port_of_error:
  "api_port_of cfg rt p = Inl e \<Longrightarrow> \<exists>m. e = ValueError m"
  by (auto simp: api_port_of_def split: if_splits)

lemma api_port_of_fails_iff:
  "(\<exists>e. api_port_of cfg rt p = Inl e) \<longleftrightarrow>
     (if is_int_instance p
      then \<not> (if PORT_OFFSET cfg then 1 \<le> int_value p \<and> int_value p \<le> 12
              else 0 \<le> int_value p \<and> int_value p \<le> 11)
      else p \<noteq> JStr ''all'')"
  by (auto simp: api_port_of_def)

lemma parse_bool_error:
  "parse_bool rt v = Inl e \<Longrightarrow> is_value_error e"
  by (auto simp: parse_bool_def Let_def split: json.splits if_splits)

lemma handle_request_control_error:
  "port \<noteq> JNull \<Longrightarrow> normalize_port port = Inr p \<Longrightarrow> parse_bool rt activate = Inr act \<Longrightarrow>
   control_port cfg rt p act = Inl e \<Longrightarrow> handle_request cfg rt t port activate = Inl e"
  by (simp add: handle_request_valid)












lemma timed_error: "timed_body t (response c (error_body m t))"
  by (simp add: timed_body_def response_def error_body_def)

lemma timed_except_clauses: "timed_body t (except_clauses e t)"
  by (cases e) (simp_all add: timed_error)

lemma timed_status_except_clauses: "timed_body t (status_except_clauses e t)"
  by (cases e) (simp_all add: timed_error)

lemma timed_wrap_result: "wrap_result result t = Inr r \<Longrightarrow> timed_body t r"
  by (auto simp: wrap_result_def timed_body_def response_def update_conv' split: json.splits)

lemma timed_handle_request: "handle_request cfg rt t port activate = Inr r \<Longrightarrow> timed_body t r"
  by (auto simp: handle_request_def timed_error timed_wrap_result split: if_splits sum.splits)

lemma timed_status_try_block: "status_try_block cfg rt t = Inr r \<Longrightarrow> timed_body t r"
  by (auto simp: status_try_block_def timed_body_def response_def split: if_splits sum.splits)

lemma extract_params_early:
  "extract_params rt event = Inr (Inl early) \<longleftrightarrow>
     (\<exists>b. py_get event ''body'' = JStr b \<and> b \<noteq> [] \<and> loads rt b = Inl JSONDecodeError)
     \<and> early = response 400 (JObj [(''error'', JStr ''Invalid JSON in request body'')])"
  by (auto simp: extract_params_def py_get_def split: option.splits json.splits sum.splits if_splits)

lemma untimed_early:
  "\<not> timed_body t (response 400 (JObj [(''error'', JStr ''Invalid JSON in request body'')]))"
  by (simp add: timed_body_def response_def)

lemma execution_time_ms_hundredths: "\<exists>k::int. execution_time_ms t0 t1 = of_int k / 100"
  by (auto simp: execution_time_ms_def py_round2_def Let_def)

text \<open>
  C1. Where the claim holds and where it fails: the body of the envelope carries
  \<^verbatim>\<open>executionTimeMs\<close>, a multiple of a hundredth, on every path of both handlers, except
  on one path of the activation handler: a request whose \<^verbatim>\<open>body\<close> is a string that is not
  JSON is answered with an object that has the \<^verbatim>\<open>error\<close> field alone.
\<close>

theorem execution_time_in_body:
  "(timed_body (execution_time_ms t0 t1) (lambda_handler cfg rt t0 t1 event)
      \<longleftrightarrow> \<not> (API_TOKEN cfg \<noteq> []
             \<and> (\<exists>b. py_get event ''body'' = JStr b \<and> b \<noteq> [] \<and> loads rt b = Inl JSONDecodeError)))
   \<and> timed_body (execution_time_ms t0 t1) (status_lambda_handler cfg rt t0 t1 event)
   \<and> (\<exists>k::int. execution_time_ms t0 t1 = of_int k / 100)"
proof (intro conjI)
  let ?t = "execution_time_ms t0 t1"
  show "timed_body ?t (lambda_handler cfg rt t0 t1 event)
      \<longleftrightarrow> \<not> (API_TOKEN cfg \<noteq> []
             \<and> (\<exists>b. py_get event ''body'' = JStr b \<and> b \<noteq> [] \<and> loads rt b = Inl JSONDecodeError))"
  proof (cases "API_TOKEN cfg = []")
    case True
    then show ?thesis
      by (simp add: lambda_handler_no_token timed_error)
  next
    case False
    show ?thesis
    proof (cases "extract_params rt event")
      case (Inl e)
      then have "\<not> (\<exists>b. py_get event ''body'' = JStr b \<and> b \<noteq> [] \<and> loads rt b = Inl JSONDecodeError)"
        by (auto simp: extract_params_invalid_json)
      with False Inl show ?thesis
        by (simp add: lambda_handler_try try_block_def timed_except_clauses)
    next
      case (Inr x)
      show ?thesis
      proof (cases x)
        case (Inl early)
        with Inr have "extract_params rt event = Inr (Inl early)"
          by simp
        then have "(\<exists>b. py_get event ''body'' = JStr b \<and> b \<noteq> [] \<and> loads rt b = Inl JSONDecodeError)
            \<and> early = response 400 (JObj [(''error'', JStr ''Invalid JSON in request body'')])"
          by (simp only: extract_params_early)
        with False Inr Inl show ?thesis
          by (simp add: lambda_handler_try try_block_def untimed_early)
      next
        case (Inr pa)
        obtain port activate where pa: "pa = (port, activate)"
          by (cases pa)
        with \<open>extract_params rt event = Inr x\<close> Inr
        have ex: "extract_params rt event = Inr (Inr (port, activate))"
          by simp
        then have no: "\<not> (\<exists>b. py_get event ''body'' = JStr b \<and> b \<noteq> [] \<and> loads rt b = Inl JSONDecodeError)"
          by (auto simp: extract_params_invalid_json)
        have "timed_body ?t (lambda_handler cfg rt t0 t1 event)"
          using False ex
          by (auto simp: lambda_handler_params timed_except_clauses timed_handle_request
              split: sum.splits)
        with no show ?thesis
          by simp
      qed
    qed
  qed
  show "timed_body ?t (status_lambda_handler cfg rt t0 t1 event)"
  proof (cases "API_TOKEN cfg = []")
    case True
    then show ?thesis
      by (simp add: status_lambda_handler_no_token timed_error)
  next
    case False
    then show ?thesis
      by (auto simp: status_lambda_handler_try timed_status_except_clauses timed_status_try_block
          split: sum.splits)
  qed
  show "\<exists>k::int. ?t = of_int k / 100"
    by (rule execution_time_ms_hundredths)
qed

theorem execution_time_in_body_witness:
  "lambda_handler (demo_config False) demo_runtime 0 1 [(''body'', JStr ''{bad'')]
     = response 400 (JObj [(''error'', JStr ''Invalid JSON in request body'')])
   \<and> \<not> timed_body (execution_time_ms 0 1)
         (lambda_handler (demo_config False) demo_runtime 0 1 [(''body'', JStr ''{bad'')])
   \<and> timed_body (execution_time_ms 0 1)
         (lambda_handler (demo_config False) demo_runtime 0 1 [(''port'', JStr ''{bad'')])"
proof -
  have l: "loads demo_runtime ''{bad'' = Inl JSONDecodeError"
    by (simp add: demo_runtime_def demo_loads_def single_reply_def all_reply_def)
  have g: "py_get [(''body'', JStr ''{bad'')] ''body'' = JStr ''{bad''"
    "py_get [(''port'', JStr ''{bad'')] ''body'' = JNull"
    by (simp_all add: py_get_def)
  have t: "API_TOKEN (demo_config False) \<noteq> []"
    by (simp add: demo_config_def)
  have "lambda_handler (demo_config False) demo_runtime 0 1 [(''body'', JStr ''{bad'')]
     = response 400 (JObj [(''error'', JStr ''Invalid JSON in request body'')])"
    using l g t by (simp add: lambda_handler_try try_block_def extract_params_invalid_json)
  then show ?thesis
    using execution_time_in_body [of 0 1 "demo_config False" demo_runtime "[(''body'', JStr ''{bad'')]"]
      execution_time_in_body [of 0 1 "demo_config False" demo_runtime "[(''port'', JStr ''{bad'')]"]
      l g t
    by simp
qed

section \<open>The host validator\<close>

subsection \<open>Splitting\<close>

lemma py_split_not_Nil: "py_split c s \<noteq> []"
  by (induction s) (auto split: list.splits)

lemma py_split_join:
  "py_split c s = l # ls \<Longrightarrow> s = l @ concat (map (\<lambda>x. c # x) ls)"
proof (induction s arbitrary: l ls)
  case Nil
  then show ?case by simp
next
  case (Cons a s)
  show ?case
  proof (cases "a = c")
    case True
    with Cons.prems have l: "l = []" and ls: "ls = py_split c s" by auto
    obtain p ps where p: "py_split c s = p # ps"
      using py_split_not_Nil [of c s] by (cases "py_split c s") auto
    from Cons.IH [OF p] True l ls p show ?thesis by simp
  next
    case False
    obtain p ps where p: "py_split c s = p # ps"
      using py_split_not_Nil [of c s] by (cases "py_split c s") auto
    with Cons.prems False have "l = a # p" "ls = ps" by auto
    with Cons.IH [OF p] show ?thesis by simp
  qed
qed

lemma py_split_length: "length (py_split c s) = Suc (length (filter (\<lambda>x. x = c) s))"
proof (induction s)
  case Nil
  then show ?case by simp
next
  case (Cons a s)
  obtain p ps where p: "py_split c s = p # ps"
    using py_split_not_Nil [of c s] by (cases "py_split c s") auto
  with Cons show ?case by auto
qed

lemma py_split_no_sep: "c \<notin> set s \<Longrightarrow> py_split c s = [s]"
  by (induction s) auto

lemma py_split_append: "c \<notin> set h \<Longrightarrow> py_split c (h @ c # r) = h # py_split c r"
proof (induction h)
  case Nil
  then show ?case by simp
next
  case (Cons a h)
  then show ?case by auto
qed

lemma py_split_parts_no_sep: "l \<in> set (py_split c s) \<Longrightarrow> c \<notin> set l"
proof (induction s arbitrary: l)
  case Nil
  then show ?case by simp
next
  case (Cons a s)
  obtain p ps where p: "py_split c s = p # ps"
    using py_split_not_Nil [of c s] by (cases "py_split c s") auto
  show ?case
  proof (cases "a = c")
    case True
    with Cons show ?thesis by auto
  next
    case False
    with Cons.prems p have "l = a # p \<or> l \<in> set ps" by auto
    then show ?thesis
    proof
      assume "l = a # p"
      moreover have "c \<notin> set p" using Cons.IH [of p] p by simp
      ultimately show ?thesis using False by auto
    next
      assume "l \<in> set ps"
      then show ?thesis using Cons.IH [of l] p by simp
    qed
  qed
qed

subsection \<open>Matching\<close>

lemma rmatch_Atom:
  "list_ex (\<lambda>i. in_citem i c) cs \<Longrightarrow> rmatch (Atom cs) (c # t) = [t]"
  by (simp add: rmatch.simps)

lemma rmatch_SeqI:
  "t1 \<in> set (rmatch a s) \<Longrightarrow> t2 \<in> set (rmatch b t1) \<Longrightarrow> t2 \<in> set (rmatch (Seq a b) s)"
  by (auto simp: rmatch.simps)

lemma rmatch_OptI1: "t \<in> set (rmatch a s) \<Longrightarrow> t \<in> set (rmatch (Opt a) s)"
  by (simp add: rmatch.simps)

lemma rmatch_OptI2: "s \<in> set (rmatch (Opt a) s)"
  by (simp add: rmatch.simps)

lemma rmatch_StarI1: "s \<in> set (rmatch (Star a) s)"
  by (subst rmatch.simps) simp

lemma rmatch_StarI2:
  "t1 \<in> set (rmatch a s) \<Longrightarrow> length t1 < length s \<Longrightarrow> t2 \<in> set (rmatch (Star a) t1) \<Longrightarrow>
   t2 \<in> set (rmatch (Star a) s)"
  by (subst rmatch.simps) auto

lemma rmatch_Dollar_Nil: "rmatch Dollar [] = [[]]"
  by (simp add: rmatch.simps)

lemma rmatch_LookI: "rmatch a s \<noteq> [] \<Longrightarrow> rmatch (Look a) s = [s]"
  by (simp add: rmatch.simps)

lemma rmatch_Rep_atoms:
  "list_all (\<lambda>c. list_ex (\<lambda>i. in_citem i c) cs) u \<Longrightarrow> m \<le> length u \<Longrightarrow> length u \<le> n \<Longrightarrow>
   t \<in> set (rmatch (Rep m n (Atom cs)) (u @ t))"
proof (induction u arbitrary: m n)
  case Nil
  then show ?case by (subst rmatch.simps) simp
next
  case (Cons c u)
  from Cons.prems have n: "n \<noteq> 0" and c: "list_ex (\<lambda>i. in_citem i c) cs"
    and u: "list_all (\<lambda>c. list_ex (\<lambda>i. in_citem i c) cs) u" by auto
  from Cons.prems have "m - 1 \<le> length u" "length u \<le> n - 1" by auto
  from Cons.IH [OF u this] have "t \<in> set (rmatch (Rep (m - 1) (n - 1) (Atom cs)) (u @ t))" .
  with n c show ?case
    by (subst rmatch.simps) (simp add: rmatch_Atom)
qed

lemma alnum_in_class:
  "is_alnum c \<Longrightarrow>
   list_ex (\<lambda>i. in_citem i c)
     [Span (CHR ''A'') (CHR ''Z''), Span (CHR ''a'') (CHR ''z''), Span (CHR ''0'') (CHR ''9'')]"
  by (auto simp: is_alnum_def code_def)

lemma alnum_hyphen_in_class:
  "is_alnum c \<or> c = CHR ''-'' \<Longrightarrow>
   list_ex (\<lambda>i. in_citem i c)
     [Span (CHR ''A'') (CHR ''Z''), Span (CHR ''a'') (CHR ''z''), Span (CHR ''0'') (CHR ''9''),
      Lit (CHR ''-'')]"
  by (auto simp: is_alnum_def code_def)

lemma alnum_re_match: "is_alnum c \<Longrightarrow> rmatch alnum_re (c # t) = [t]"
  unfolding alnum_re_def by (rule rmatch_Atom) (rule alnum_in_class)

lemma label_match:
  assumes "spec_label l"
  shows "t \<in> set (rmatch label_re (l @ t))"
proof -
  from assms obtain c r where l: "l = c # r" and c: "is_alnum c"
    by (cases l) (auto simp: spec_label_def)
  have first: "rmatch alnum_re (c # r @ t) = [r @ t]"
    using c by (rule alnum_re_match)
  show ?thesis
  proof (cases "r = []")
    case True
    have "t \<in> set (rmatch (Opt (Seq (Rep 0 61 alnum_hyphen_re) alnum_re)) t)"
      by (rule rmatch_OptI2)
    with first True l show ?thesis
      by (auto simp: label_re_def intro: rmatch_SeqI)
  next
    case False
    then obtain mid d where r: "r = mid @ [d]"
      by (metis rev_exhaust)
    from assms l r have d: "is_alnum d" and len: "length mid \<le> 61"
      and mid: "list_all (\<lambda>c. is_alnum c \<or> c = CHR ''-'') mid"
      by (auto simp: spec_label_def)
    from mid have "list_all (\<lambda>c. list_ex (\<lambda>i. in_citem i c)
        [Span (CHR ''A'') (CHR ''Z''), Span (CHR ''a'') (CHR ''z''), Span (CHR ''0'') (CHR ''9''),
         Lit (CHR ''-'')]) mid"
      unfolding list_all_iff by (blast intro: alnum_hyphen_in_class)
    from rmatch_Rep_atoms [OF this _ len, of 0 "d # t"]
    have "d # t \<in> set (rmatch (Rep 0 61 alnum_hyphen_re) (mid @ d # t))"
      by (simp add: alnum_hyphen_re_def)
    moreover have "rmatch alnum_re (d # t) = [t]"
      using d by (rule alnum_re_match)
    ultimately have "t \<in> set (rmatch (Seq (Rep 0 61 alnum_hyphen_re) alnum_re) (mid @ d # t))"
      by (auto intro: rmatch_SeqI)
    then have "t \<in> set (rmatch (Opt (Seq (Rep 0 61 alnum_hyphen_re) alnum_re)) (r @ t))"
      using r by (auto intro: rmatch_OptI1)
    with first l show ?thesis
      by (auto simp: label_re_def intro: rmatch_SeqI)
  qed
qed

lemma labels_match:
  "list_all spec_label ls \<Longrightarrow>
   t \<in> set (rmatch (Star (Seq (Atom [Lit (CHR ''.'')]) label_re))
              (concat (map (\<lambda>l. CHR ''.'' # l) ls) @ t))"
proof (induction ls)
  case Nil
  then show ?case by (simp add: rmatch_StarI1)
next
  case (Cons l ls)
  let ?rest = "concat (map (\<lambda>l. CHR ''.'' # l) ls) @ t"
  from Cons have ih: "t \<in> set (rmatch (Star (Seq (Atom [Lit (CHR ''.'')]) label_re)) ?rest)"
    and l: "spec_label l" by auto
  have "rmatch (Atom [Lit (CHR ''.'')]) (CHR ''.'' # l @ ?rest) = [l @ ?rest]"
    by (simp add: rmatch_Atom)
  moreover have "?rest \<in> set (rmatch label_re (l @ ?rest))"
    using l by (rule label_match)
  ultimately have "?rest \<in> set (rmatch (Seq (Atom [Lit (CHR ''.'')]) label_re) (CHR ''.'' # l @ ?rest))"
    by (auto intro: rmatch_SeqI)
  from rmatch_StarI2 [OF this _ ih] show ?case by simp
qed

lemma spec_label_chars: "spec_label l \<Longrightarrow> x \<in> set l \<Longrightarrow> is_alnum x \<or> x = CHR ''-''"
  by (auto simp: spec_label_def list_all_iff)

lemma joined_chars:
  "x \<in> set (concat (map (\<lambda>y. c # y) ls)) \<Longrightarrow> x = c \<or> (\<exists>l \<in> set ls. x \<in> set l)"
  by (induction ls) auto

lemma dns_chars:
  assumes "list_all spec_label (l # ls)" and "x \<in> set (l @ concat (map (\<lambda>y. CHR ''.'' # y) ls))"
  shows "is_alnum x \<or> x = CHR ''-'' \<or> x = CHR ''.''"
proof -
  from assms(2) have "x \<in> set l \<or> x = CHR ''.'' \<or> (\<exists>k \<in> set ls. x \<in> set k)"
    using joined_chars [of x "CHR ''.''" ls] by auto
  with assms(1) show ?thesis
    by (auto simp: list_all_iff dest: spec_label_chars)
qed

lemma dns_name_match:
  assumes "spec_dns_name h"
  shows "re_match dns_pattern h"
proof -
  obtain l ls where sp: "py_split (CHR ''.'') h = l # ls"
    using py_split_not_Nil [of "CHR ''.''" h] by (cases "py_split (CHR ''.'') h") auto
  from py_split_join [OF sp] have h: "h = l @ concat (map (\<lambda>x. CHR ''.'' # x) ls)" .
  from assms sp have labels: "list_all spec_label (l # ls)" and len: "length h \<le> 253"
    by (auto simp: spec_dns_name_def)
  then have l: "spec_label l" and ls: "list_all spec_label ls" by auto
  from l h have ne: "1 \<le> length h"
    by (cases l) (auto simp: spec_label_def)
  have chars: "\<forall>x \<in> set h. is_alnum x \<or> x = CHR ''-'' \<or> x = CHR ''.''"
    using dns_chars [OF labels] h by auto
  have "list_all (\<lambda>c. list_ex (\<lambda>i. in_citem i c) [Dot]) h"
    using chars by (auto simp: list_all_iff is_alnum_def code_def)
  from rmatch_Rep_atoms [OF this ne len, of "[]"]
  have "[] \<in> set (rmatch (Rep 1 253 (Atom [Dot])) h)" by simp
  then have "[] \<in> set (rmatch (Seq (Rep 1 253 (Atom [Dot])) Dollar) h)"
    by (rule rmatch_SeqI) (simp add: rmatch_Dollar_Nil)
  then have "rmatch (Seq (Rep 1 253 (Atom [Dot])) Dollar) h \<noteq> []" by auto
  then have look: "rmatch (Look (Seq (Rep 1 253 (Atom [Dot])) Dollar)) h = [h]"
    by (rule rmatch_LookI)
  have "concat (map (\<lambda>x. CHR ''.'' # x) ls) @ []
      \<in> set (rmatch label_re (l @ concat (map (\<lambda>x. CHR ''.'' # x) ls) @ []))"
    using l by (rule label_match)
  moreover have "[] \<in> set (rmatch (Star (Seq (Atom [Lit (CHR ''.'')]) label_re))
      (concat (map (\<lambda>x. CHR ''.'' # x) ls) @ []))"
    using ls by (rule labels_match)
  ultimately have "[] \<in> set (rmatch (Seq label_re (Star (Seq (Atom [Lit (CHR ''.'')]) label_re))) h)"
    using h by (auto intro: rmatch_SeqI)
  then have "[] \<in> set (rmatch (Seq (Seq label_re (Star (Seq (Atom [Lit (CHR ''.'')]) label_re))) Dollar) h)"
    by (rule rmatch_SeqI) (simp add: rmatch_Dollar_Nil)
  with look have "[] \<in> set (rmatch dns_pattern h)"
    unfolding dns_pattern_def by (auto intro: rmatch_SeqI)
  then show ?thesis by (auto simp: re_match_def)
qed


subsection \<open>Hosts of the specification\<close>

lemma digit_is_alnum: "ascii_digit c \<Longrightarrow> is_alnum c"
  by (simp add: ascii_digit_def is_alnum_def)

lemma digits_label:
  assumes "l \<noteq> []" "length l \<le> 63" "list_all ascii_digit l"
  shows "spec_label l"
proof -
  from assms(1) have "hd l \<in> set l" "last l \<in> set l" by auto
  with assms show ?thesis
    by (auto simp: spec_label_def list_all_iff digit_is_alnum)
qed

lemma dotted_digits_dns: "dotted_digits h \<Longrightarrow> spec_dns_name h"
  by (auto simp: dotted_digits_def spec_dns_name_def list_all_iff intro: digits_label)

lemma ipv4_dotted_digits:
  assumes "spec_ipv4 h"
  shows "dotted_digits h"
proof -
  from assms obtain a b c d where sp: "py_split (CHR ''.'') h = [a, b, c, d]"
    by (auto simp: spec_ipv4_def length_Suc_conv numeral_eq_Suc)
  from py_split_join [OF sp] have h: "h = a @ CHR ''.'' # b @ CHR ''.'' # c @ CHR ''.'' # d"
    by simp
  from assms sp have o: "spec_octet a" "spec_octet b" "spec_octet c" "spec_octet d"
    by (auto simp: spec_ipv4_def)
  then have "length a \<le> 3" "length b \<le> 3" "length c \<le> 3" "length d \<le> 3"
    by (auto simp: spec_octet_def)
  with h have "length h \<le> 253" by simp
  with o sp show ?thesis
    by (auto simp: dotted_digits_def spec_octet_def)
qed

lemma dns_name_chars:
  assumes "spec_dns_name h" "x \<in> set h"
  shows "is_alnum x \<or> x = CHR ''-'' \<or> x = CHR ''.''"
proof -
  obtain l ls where sp: "py_split (CHR ''.'') h = l # ls"
    using py_split_not_Nil [of "CHR ''.''" h] by (cases "py_split (CHR ''.'') h") auto
  from py_split_join [OF sp] have h: "h = l @ concat (map (\<lambda>x. CHR ''.'' # x) ls)" .
  from assms(1) sp have "list_all spec_label (l # ls)"
    by (simp add: spec_dns_name_def)
  from dns_chars [OF this] assms(2) h show ?thesis by auto
qed

lemma dns_name_not_Nil: "spec_dns_name h \<Longrightarrow> h \<noteq> []"
  by (auto simp: spec_dns_name_def spec_label_def)

lemma host_chars:
  assumes "spec_host h" "x \<in> set h"
  shows "x \<notin> set [CHR ''@'', CHR ''/'', CHR 0x5C, CHR ''?'', CHR ''#'', CHR '':'']"
proof -
  from assms(1) have "h = ''localhost'' \<or> spec_dns_name h"
    by (auto simp: spec_host_def dest: ipv4_dotted_digits dotted_digits_dns)
  then show ?thesis
  proof
    assume "h = ''localhost''"
    with assms(2) show ?thesis by auto
  next
    assume "spec_dns_name h"
    from dns_name_chars [OF this assms(2)] show ?thesis
      by (auto simp: is_alnum_def code_def)
  qed
qed

lemma host_not_Nil: "spec_host h \<Longrightarrow> h \<noteq> []"
  by (auto simp: spec_host_def dest: ipv4_dotted_digits dotted_digits_dns dns_name_not_Nil)

lemma host_accepted:
  "spec_host h \<Longrightarrow> h = ''localhost'' \<or> re_match ipv4_pattern h \<or> re_match dns_pattern h"
  by (auto simp: spec_host_def dest: ipv4_dotted_digits dotted_digits_dns dns_name_match)

lemma validate_host:
  assumes "spec_host h"
  shows "validate_api_ip h"
proof -
  have plain: "\<forall>x \<in> set h. x \<notin> set [CHR ''@'', CHR ''/'', CHR 0x5C, CHR ''?'', CHR ''#'', CHR '':'']"
    using host_chars [OF assms] by blast
  then have sp: "py_split (CHR '':'') h = [h]"
    by (intro py_split_no_sep) auto
  have nf: "\<not> list_ex (\<lambda>ch. ch \<in> set h) [CHR ''@'', CHR ''/'', CHR 0x5C, CHR ''?'', CHR ''#'']"
    using plain by (auto simp: list_ex_iff)
  show ?thesis
    using host_not_Nil [OF assms] host_accepted [OF assms] nf sp
    by (simp add: validate_api_ip_def Let_def)
qed

subsection \<open>Port suffixes\<close>

lemma digit_not_space: "ascii_digit c \<Longrightarrow> \<not> int_isspace c"
  by (auto simp: ascii_digit_def int_isspace_def)

lemma int_strip_digits:
  assumes "list_all ascii_digit ds"
  shows "int_strip ds = ds"
proof (cases ds)
  case Nil
  then show ?thesis by (simp add: int_strip_def)
next
  case (Cons c r)
  then have ne: "ds \<noteq> []" by simp
  then have "hd ds \<in> set ds" "last ds \<in> set ds" by simp_all
  moreover have "hd (rev ds) = last ds" using ne by (simp add: hd_rev)
  ultimately have "\<not> int_isspace (hd ds)" "\<not> int_isspace (hd (rev ds))"
    using assms by (auto simp: list_all_iff dest: digit_not_space)
  with ne have "dropWhile int_isspace ds = ds" "dropWhile int_isspace (rev ds) = rev ds"
    by (auto simp: dropWhile_eq_self_iff)
  then show ?thesis by (simp add: int_strip_def)
qed

lemma underscores_ok_none: "CHR ''_'' \<notin> set t \<Longrightarrow> underscores_ok t"
  by (induction t rule: underscores_ok.induct) auto

lemma digit_chars:
  "ascii_digit c \<Longrightarrow>
   c \<notin> set [CHR ''_'', CHR ''-'', CHR ''+'', CHR ''@'', CHR ''/'', CHR 0x5C, CHR ''?'', CHR ''#'', CHR '':'']"
  by (auto simp: ascii_digit_def code_def)

lemma py_int_digits:
  assumes "ds \<noteq> []" "list_all ascii_digit ds" "length ds \<le> int_max_str_digits"
  shows "py_int ds = Some (digits_value ds)"
proof -
  from assms(1) obtain c r where ds: "ds = c # r" by (cases ds) auto
  have none: "\<forall>x \<in> set ds. x \<noteq> CHR ''_''"
    using assms(2) digit_chars by (auto simp: list_all_iff)
  then have f: "filter (\<lambda>c. c \<noteq> CHR ''_'') ds = ds"
    by (simp add: filter_id_conv)
  have u: "underscores_ok ds"
    using none by (intro underscores_ok_none) auto
  have a: "list_all (\<lambda>c. ascii_digit c \<or> c = CHR ''_'') ds"
    using assms(2) by (auto simp: list_all_iff)
  have "parse_unsigned ds = Some (digits_value ds)"
    using assms(1,3) none f u a ds by (auto simp: parse_unsigned_def Let_def)
  moreover have "c \<noteq> CHR ''-''" "c \<noteq> CHR ''+''"
    using assms(2) ds digit_chars [of c] by auto
  ultimately show ?thesis
    using int_strip_digits [OF assms(2)] ds by (simp add: py_int_def)
qed

lemma validate_host_port:
  assumes "spec_host h" "spec_port_suffix ps"
  shows "validate_api_ip (h @ CHR '':'' # ps)"
proof -
  from assms(2) have ps: "ps \<noteq> []" "list_all ascii_digit ps" "length ps \<le> int_max_str_digits"
    and range: "1 \<le> digits_value ps" "digits_value ps \<le> 65535"
    by (auto simp: spec_port_suffix_def)
  have plain_h: "\<forall>x \<in> set h. x \<notin> set [CHR ''@'', CHR ''/'', CHR 0x5C, CHR ''?'', CHR ''#'', CHR '':'']"
    using host_chars [OF assms(1)] by blast
  have plain_p: "\<forall>x \<in> set ps. x \<notin> set [CHR ''@'', CHR ''/'', CHR 0x5C, CHR ''?'', CHR ''#'', CHR '':'']"
    using ps(2) digit_chars by (auto simp: list_all_iff)
  have "py_split (CHR '':'') (h @ CHR '':'' # ps) = h # py_split (CHR '':'') ps"
    using plain_h by (intro py_split_append) auto
  moreover have "py_split (CHR '':'') ps = [ps]"
    using plain_p by (intro py_split_no_sep) auto
  ultimately have sp: "py_split (CHR '':'') (h @ CHR '':'' # ps) = [h, ps]" by simp
  have nf: "\<not> list_ex (\<lambda>ch. ch \<in> set (h @ CHR '':'' # ps))
      [CHR ''@'', CHR ''/'', CHR 0x5C, CHR ''?'', CHR ''#'']"
    using plain_h plain_p by (auto simp: list_ex_iff)
  have dg: "py_isdigit ps"
    using ps by (auto simp: py_isdigit_def list_all_iff)
  show ?thesis
    using host_accepted [OF assms(1)] nf sp dg py_int_digits [OF ps] range
    by (simp add: validate_api_ip_def Let_def)
qed

subsection \<open>Rejections\<close>

lemma validate_rejects_forbidden:
  "c \<in> set s \<Longrightarrow> c \<in> set [CHR ''@'', CHR ''/'', CHR 0x5C, CHR ''?'', CHR ''#''] \<Longrightarrow>
   \<not> validate_api_ip s"
  by (auto simp: validate_api_ip_def list_ex_iff)

lemma validate_rejects_colons:
  "1 < length (filter (\<lambda>x. x = CHR '':'') s) \<Longrightarrow> \<not> validate_api_ip s"
  by (simp add: validate_api_ip_def Let_def py_split_length)

subsection \<open>Dotted quads and the IPv4 pattern\<close>

lemma code_inject: "code a = code b \<Longrightarrow> a = b"
  by (simp add: code_def)

lemma digit_re_match: "ascii_digit c \<Longrightarrow> rmatch digit_re (c # t) = [t]"
  unfolding digit_re_def by (rule rmatch_Atom) (simp add: ascii_digit_def code_def)

lemma rmatch_AltI1: "t \<in> set (rmatch a s) \<Longrightarrow> t \<in> set (rmatch (Alt a b) s)"
  by (simp add: rmatch.simps)

lemma rmatch_AltI2: "t \<in> set (rmatch b s) \<Longrightarrow> t \<in> set (rmatch (Alt a b) s)"
  by (simp add: rmatch.simps)

lemma rmatch_RepI0: "t \<in> set (rmatch (Rep 0 n a) t)"
  by (subst rmatch.simps) simp

lemma rmatch_RepI:
  "n \<noteq> 0 \<Longrightarrow> t1 \<in> set (rmatch a s) \<Longrightarrow> t2 \<in> set (rmatch (Rep (m - 1) (n - 1) a) t1) \<Longrightarrow>
   t2 \<in> set (rmatch (Rep m n a) s)"
  by (subst rmatch.simps) auto

lemma lit_match: "rmatch (Atom [Lit c]) (c # t) = [t]"
  by (rule rmatch_Atom) simp

lemma digits_value_3:
  "digits_value [a, b, c] = 100 * digit_val a + 10 * digit_val b + digit_val c"
  by (simp add: digits_value_def)

lemma digit_val_range: "ascii_digit c \<Longrightarrow> 0 \<le> digit_val c \<and> digit_val c \<le> 9"
  by (auto simp: ascii_digit_def digit_val_def)

lemma digit_val_char:
  assumes "digit_val c = int k" "k < 10"
  shows "c = char_of (48 + k)"
proof -
  from assms have "code c = 48 + k"
    by (simp add: digit_val_def)
  also have "\<dots> = code (char_of (48 + k))"
    using assms(2) by (simp add: code_def)
  finally show ?thesis by (rule code_inject)
qed

lemma digit_chars_0125:
  "digit_val c = 0 \<Longrightarrow> c = CHR ''0''"
  "digit_val c = 1 \<Longrightarrow> c = CHR ''1''"
  "digit_val c = 2 \<Longrightarrow> c = CHR ''2''"
  "digit_val c = 5 \<Longrightarrow> c = CHR ''5''"
proof -
  have e: "char_of (48 + (0::nat)) = CHR ''0''" "char_of (48 + (1::nat)) = CHR ''1''"
    "char_of (48 + (2::nat)) = CHR ''2''" "char_of (48 + (5::nat)) = CHR ''5''"
    by code_simp+
  show "digit_val c = 0 \<Longrightarrow> c = CHR ''0''"
    using digit_val_char [of c 0] e by simp
  show "digit_val c = 1 \<Longrightarrow> c = CHR ''1''"
    using digit_val_char [of c 1] e by simp
  show "digit_val c = 2 \<Longrightarrow> c = CHR ''2''"
    using digit_val_char [of c 2] e by simp
  show "digit_val c = 5 \<Longrightarrow> c = CHR ''5''"
    using digit_val_char [of c 5] e by simp
qed

lemma short_list_cases:
  assumes "ds \<noteq> []" "length ds \<le> 3"
  shows "(\<exists>a. ds = [a]) \<or> (\<exists>a b. ds = [a, b]) \<or> (\<exists>a b c. ds = [a, b, c])"
proof -
  from assms(1) have "0 < length ds" by simp
  with assms(2) have "length ds = Suc 0 \<or> length ds = Suc (Suc 0) \<or> length ds = Suc (Suc (Suc 0))"
    by arith
  then show ?thesis
    by (auto simp: length_Suc_conv)
qed

lemma digit_re_member: "ascii_digit c \<Longrightarrow> t \<in> set (rmatch digit_re (c # t))"
  by (simp add: digit_re_match)

lemma lit_member: "t \<in> set (rmatch (Atom [Lit c]) (c # t))"
  by (simp add: lit_match)

lemma tail_match:
  assumes "ascii_digit b"
  shows "t \<in> set (rmatch (Seq digit_re (Opt digit_re)) (b # t))"
  by (rule rmatch_SeqI [OF digit_re_member [OF assms] rmatch_OptI2])

lemma tail_match2:
  assumes "ascii_digit b" "ascii_digit c"
  shows "t \<in> set (rmatch (Seq digit_re (Opt digit_re)) (b # c # t))"
  by (rule rmatch_SeqI [OF digit_re_member [OF assms(1)]
        rmatch_OptI1 [OF digit_re_member [OF assms(2)]]])

lemma low_octet_short:
  assumes "t \<in> set (rmatch (Seq digit_re (Opt digit_re)) s)"
  shows "t \<in> set (rmatch octet_re s)"
proof -
  have "t \<in> set (rmatch (Seq (Opt (Atom [Lit (CHR ''0''), Lit (CHR ''1'')]))
      (Seq digit_re (Opt digit_re))) s)"
    by (rule rmatch_SeqI [OF rmatch_OptI2 assms])
  then show ?thesis
    unfolding octet_re_def by (rule rmatch_AltI2 [OF rmatch_AltI2])
qed

lemma low_octet_long:
  assumes "a = CHR ''0'' \<or> a = CHR ''1''" "ascii_digit b" "ascii_digit c"
  shows "t \<in> set (rmatch octet_re (a # b # c # t))"
proof -
  have "list_ex (\<lambda>i. in_citem i a) [Lit (CHR ''0''), Lit (CHR ''1'')]"
    using assms(1) by auto
  then have "rmatch (Atom [Lit (CHR ''0''), Lit (CHR ''1'')]) (a # b # c # t) = [b # c # t]"
    by (rule rmatch_Atom)
  then have "b # c # t \<in> set (rmatch (Atom [Lit (CHR ''0''), Lit (CHR ''1'')]) (a # b # c # t))"
    by simp
  then have "b # c # t \<in> set (rmatch (Opt (Atom [Lit (CHR ''0''), Lit (CHR ''1'')])) (a # b # c # t))"
    by (rule rmatch_OptI1)
  then have "t \<in> set (rmatch (Seq (Opt (Atom [Lit (CHR ''0''), Lit (CHR ''1'')]))
      (Seq digit_re (Opt digit_re))) (a # b # c # t))"
    by (rule rmatch_SeqI [OF _ tail_match2 [OF assms(2,3)]])
  then show ?thesis
    unfolding octet_re_def by (rule rmatch_AltI2 [OF rmatch_AltI2])
qed

lemma mid_octet:
  assumes "digit_val b \<le> 4" "ascii_digit b" "ascii_digit c"
  shows "t \<in> set (rmatch octet_re (CHR ''2'' # b # c # t))"
proof -
  have "list_ex (\<lambda>i. in_citem i b) [Span (CHR ''0'') (CHR ''4'')]"
    using assms(1,2) by (simp add: digit_val_def ascii_digit_def code_def)
  then have "rmatch (Atom [Span (CHR ''0'') (CHR ''4'')]) (b # c # t) = [c # t]"
    by (rule rmatch_Atom)
  then have "c # t \<in> set (rmatch (Atom [Span (CHR ''0'') (CHR ''4'')]) (b # c # t))"
    by simp
  then have "t \<in> set (rmatch (Seq (Atom [Span (CHR ''0'') (CHR ''4'')]) digit_re) (b # c # t))"
    by (rule rmatch_SeqI [OF _ digit_re_member [OF assms(3)]])
  then have "t \<in> set (rmatch (Seq (Atom [Lit (CHR ''2'')])
      (Seq (Atom [Span (CHR ''0'') (CHR ''4'')]) digit_re)) (CHR ''2'' # b # c # t))"
    by (rule rmatch_SeqI [OF lit_member])
  then show ?thesis
    unfolding octet_re_def by (rule rmatch_AltI2 [OF rmatch_AltI1])
qed

lemma high_octet:
  assumes "digit_val c \<le> 5" "ascii_digit c"
  shows "t \<in> set (rmatch octet_re (CHR ''2'' # CHR ''5'' # c # t))"
proof -
  have "list_ex (\<lambda>i. in_citem i c) [Span (CHR ''0'') (CHR ''5'')]"
    using assms by (simp add: digit_val_def ascii_digit_def code_def)
  then have "rmatch (Atom [Span (CHR ''0'') (CHR ''5'')]) (c # t) = [t]"
    by (rule rmatch_Atom)
  then have "t \<in> set (rmatch (Atom [Span (CHR ''0'') (CHR ''5'')]) (c # t))"
    by simp
  then have "t \<in> set (rmatch (Seq (Atom [Lit (CHR ''5'')]) (Atom [Span (CHR ''0'') (CHR ''5'')]))
      (CHR ''5'' # c # t))"
    by (rule rmatch_SeqI [OF lit_member])
  then have "t \<in> set (rmatch (Seq (Atom [Lit (CHR ''2'')])
      (Seq (Atom [Lit (CHR ''5'')]) (Atom [Span (CHR ''0'') (CHR ''5'')])))
      (CHR ''2'' # CHR ''5'' # c # t))"
    by (rule rmatch_SeqI [OF lit_member])
  then show ?thesis
    unfolding octet_re_def by (rule rmatch_AltI1)
qed

lemma octet_match:
  assumes "spec_octet ds"
  shows "t \<in> set (rmatch octet_re (ds @ t))"
proof -
  from assms have len: "ds \<noteq> []" "length ds \<le> 3" and dig: "list_all ascii_digit ds"
    and v: "digits_value ds \<le> 255"
    by (auto simp: spec_octet_def)
  from short_list_cases [OF len]
  consider a where "ds = [a]" | a b where "ds = [a, b]" | a b c where "ds = [a, b, c]"
    by blast
  then show ?thesis
  proof cases
    case 1
    with dig have "ascii_digit a" by simp
    from low_octet_short [OF tail_match [OF this]] 1 show ?thesis by simp
  next
    case 2
    with dig have "ascii_digit a" "ascii_digit b" by simp_all
    from low_octet_short [OF tail_match2 [OF this]] 2 show ?thesis by simp
  next
    case 3
    with dig have d: "ascii_digit a" "ascii_digit b" "ascii_digit c" by simp_all
    note r = digit_val_range [OF d(1)] digit_val_range [OF d(2)] digit_val_range [OF d(3)]
    from v 3 have val: "100 * digit_val a + 10 * digit_val b + digit_val c \<le> 255"
      by (simp add: digits_value_3)
    with r have "digit_val a = 0 \<or> digit_val a = 1
      \<or> (digit_val a = 2 \<and> digit_val b \<le> 4)
      \<or> (digit_val a = 2 \<and> digit_val b = 5 \<and> digit_val c \<le> 5)"
      by arith
    then consider "a = CHR ''0'' \<or> a = CHR ''1''"
      | "a = CHR ''2''" "digit_val b \<le> 4"
      | "a = CHR ''2''" "b = CHR ''5''" "digit_val c \<le> 5"
      using digit_chars_0125 [of a] digit_chars_0125 [of b] by blast
    then show ?thesis
    proof cases
      case 1
      from low_octet_long [OF this d(2,3)] \<open>ds = [a, b, c]\<close> show ?thesis by simp
    next
      case 2
      from mid_octet [OF 2(2) d(2,3)] 2(1) \<open>ds = [a, b, c]\<close> show ?thesis by simp
    next
      case 3
      from high_octet [OF 3(3) d(3)] 3(1,2) \<open>ds = [a, b, c]\<close> show ?thesis by simp
    qed
  qed
qed

lemma octet_dot_match:
  assumes "spec_octet ds"
  shows "t \<in> set (rmatch (Seq octet_re (Atom [Lit (CHR ''.'')])) (ds @ CHR ''.'' # t))"
  by (rule rmatch_SeqI [OF octet_match [OF assms] lit_member])

lemma ipv4_match:
  assumes "spec_ipv4 h"
  shows "re_match ipv4_pattern h"
proof -
  let ?od = "Seq octet_re (Atom [Lit (CHR ''.'')])"
  from assms obtain a b c d where sp: "py_split (CHR ''.'') h = [a, b, c, d]"
    by (auto simp: spec_ipv4_def length_Suc_conv numeral_eq_Suc)
  from py_split_join [OF sp] have h: "h = a @ CHR ''.'' # b @ CHR ''.'' # c @ CHR ''.'' # d"
    by simp
  from assms sp have o: "spec_octet a" "spec_octet b" "spec_octet c" "spec_octet d"
    by (auto simp: spec_ipv4_def)
  have r0: "d \<in> set (rmatch (Rep 0 0 ?od) d)"
    by (rule rmatch_RepI0)
  have "d \<in> set (rmatch (Rep (Suc 0) (Suc 0) ?od) (c @ CHR ''.'' # d))"
    using rmatch_RepI [OF _ octet_dot_match [OF o(3)], where n = "Suc 0" and m = "Suc 0" and ?t2.0 = d] r0 by simp
  then have "d \<in> set (rmatch (Rep (Suc (Suc 0)) (Suc (Suc 0)) ?od) (b @ CHR ''.'' # c @ CHR ''.'' # d))"
    using rmatch_RepI [OF _ octet_dot_match [OF o(2)], where n = "Suc (Suc 0)" and m = "Suc (Suc 0)" and ?t2.0 = d]
    by simp
  then have "d \<in> set (rmatch (Rep 3 3 ?od) h)"
    using rmatch_RepI [OF _ octet_dot_match [OF o(1)], where n = 3 and m = 3 and ?t2.0 = d]
    by (simp add: h numeral_3_eq_3)
  moreover have "[] \<in> set (rmatch (Seq octet_re Dollar) d)"
    using rmatch_SeqI [OF octet_match [OF o(4), of "[]"], where ?t2.0 = "[]" and b = Dollar]
    by (simp add: rmatch_Dollar_Nil)
  ultimately have "[] \<in> set (rmatch ipv4_pattern h)"
    unfolding ipv4_pattern_def by (rule rmatch_SeqI)
  then show ?thesis by (auto simp: re_match_def)
qed

subsection \<open>Decimal port numbers\<close>

lemma code_digit_char: "d < 10 \<Longrightarrow> code (char_of (48 + d)) = 48 + d"
  by (simp add: code_def)

lemma digits_value_snoc: "digits_value (ds @ [c]) = 10 * digits_value ds + digit_val c"
  by (simp add: digits_value_def)

lemma digit_char_props:
  "d < 10 \<Longrightarrow> ascii_digit (char_of (48 + d)) \<and> digit_val (char_of (48 + d)) = int d"
  by (simp add: ascii_digit_def digit_val_def code_digit_char)

lemma str_nat_digits:
  "str_nat n \<noteq> [] \<and> list_all ascii_digit (str_nat n) \<and> digits_value (str_nat n) = int n"
proof (induction n rule: str_nat.induct)
  case (1 n)
  show ?case
  proof (cases "n < 10")
    case True
    from digit_char_props [OF True] True show ?thesis
      by (subst (1 2 3) str_nat.simps) (simp add: digits_value_def)
  next
    case False
    have d: "n mod 10 < 10" by simp
    have n: "10 * int (n div 10) + int (n mod 10) = int n" by presburger
    from 1 [OF False] False digit_char_props [OF d] n show ?thesis
      by (subst (1 2 3) str_nat.simps) (simp add: digits_value_snoc)
  qed
qed

lemma str_nat_length: "0 < k \<Longrightarrow> n < 10 ^ k \<Longrightarrow> length (str_nat n) \<le> k"
proof (induction k arbitrary: n)
  case 0
  then show ?case by simp
next
  case (Suc k)
  show ?case
  proof (cases "n < 10")
    case True
    then show ?thesis by (subst str_nat.simps) simp
  next
    case False
    with Suc.prems have k: "0 < k"
      by (cases k) auto
    from Suc.prems have "n div 10 < 10 ^ k"
      by (simp add: less_mult_imp_div_less mult.commute)
    from Suc.IH [OF k this] False show ?thesis
      by (subst str_nat.simps) simp
  qed
qed

lemma port_number_suffix:
  assumes "1 \<le> p" "p \<le> 65535"
  shows "spec_port_suffix (str_int p)"
proof -
  from assms have s: "str_int p = str_nat (nat p)"
    by (simp add: str_int_def)
  have "nat p < 10 ^ 5" using assms by simp
  from str_nat_length [OF _ this] have "length (str_nat (nat p)) \<le> 5" by simp
  with str_nat_digits [of "nat p"] assms s show ?thesis
    by (simp add: spec_port_suffix_def int_max_str_digits_def)
qed

subsection \<open>The claims on the validator\<close>

text \<open>
  C2. Every host of the specification (\<^verbatim>\<open>localhost\<close>, a dotted quad of octets 0 to 255, or
  a DNS name of labels of 1 to 63 letters, digits and inner hyphens and of length at most
  253) is accepted, alone and followed by a colon and a port from 1 to 65535 (the decimal
  rendering of the integer, or any digit string of that value, leading zeros included); a
  dotted quad matches the IPv4 pattern and a DNS name the pattern of DNS names; the
  empty string, every string that holds one of the characters \<^verbatim>\<open>@ / \ ? #\<close> and every
  string that holds more than one colon is refused.
\<close>

theorem validate_api_ip_spec:
  "(spec_host h \<longrightarrow>
      validate_api_ip h
      \<and> (1 \<le> p \<and> p \<le> 65535 \<longrightarrow> validate_api_ip (h @ '':'' @ str_int p))
      \<and> (spec_port_suffix ps \<longrightarrow> validate_api_ip (h @ '':'' @ ps)))
   \<and> (spec_ipv4 h \<longrightarrow> re_match ipv4_pattern h)
   \<and> (spec_dns_name h \<longrightarrow> re_match dns_pattern h)
   \<and> \<not> validate_api_ip []
   \<and> ((\<exists>c \<in> set s. c \<in> set [CHR ''@'', CHR ''/'', CHR 0x5C, CHR ''?'', CHR ''#''])
        \<longrightarrow> \<not> validate_api_ip s)
   \<and> (1 < length (filter (\<lambda>x. x = CHR '':'') s) \<longrightarrow> \<not> validate_api_ip s)"
proof (intro conjI impI)
  assume "spec_host h"
  then show "validate_api_ip h" by (rule validate_host)
next
  assume "spec_host h" "1 \<le> p \<and> p \<le> 65535"
  then show "validate_api_ip (h @ '':'' @ str_int p)"
    using validate_host_port [of h "str_int p"] port_number_suffix [of p] by simp
next
  assume "spec_host h" "spec_port_suffix ps"
  then show "validate_api_ip (h @ '':'' @ ps)"
    using validate_host_port [of h ps] by simp
next
  assume "spec_ipv4 h"
  then show "re_match ipv4_pattern h" by (rule ipv4_match)
next
  assume "spec_dns_name h"
  then show "re_match dns_pattern h" by (rule dns_name_match)
next
  show "\<not> validate_api_ip []" by (simp add: validate_api_ip_def)
next
  assume "\<exists>c \<in> set s. c \<in> set [CHR ''@'', CHR ''/'', CHR 0x5C, CHR ''?'', CHR ''#'']"
  then show "\<not> validate_api_ip s"
    by (blast dest: validate_rejects_forbidden)
next
  assume "1 < length (filter (\<lambda>x. x = CHR '':'') s)"
  then show "\<not> validate_api_ip s" by (rule validate_rejects_colons)
qed

theorem validate_api_ip_spec_witness:
  "validate_api_ip ''fb-1.example.com'' \<and> validate_api_ip ''fb-1.example.com:8443''
   \<and> validate_api_ip ''192.168.0.1'' \<and> validate_api_ip ''192.168.0.1:65535''
   \<and> validate_api_ip ''localhost'' \<and> validate_api_ip ''localhost:1''
   \<and> \<not> validate_api_ip ''1.2.3.4@evil.com'' \<and> \<not> validate_api_ip ''a:1:2''"
proof -
  have h: "spec_host ''fb-1.example.com''" "spec_host ''192.168.0.1''" "spec_host ''localhost''"
    by code_simp+
  have p: "spec_port_suffix ''8443''" "spec_port_suffix ''65535''" "spec_port_suffix ''1''"
    by code_simp+
  have n: "str_int 1 = ''1''"
    by code_simp
  show ?thesis
    using validate_api_ip_spec [of "''fb-1.example.com''" 1 "''8443''" "''1.2.3.4@evil.com''"]
      validate_api_ip_spec [of "''192.168.0.1''" 1 "''65535''" "''a:1:2''"]
      validate_api_ip_spec [of "''localhost''" 1 "''1''" "''a:1:2''"]
      h p n
    by simp
qed

text \<open>
  C9. Every dotted string of digits (labels of 1 to 63 digits, total length at most 253)
  is accepted, because it matches the pattern of DNS names; \<^verbatim>\<open>999.0.0.1\<close> is one that the
  IPv4 pattern refuses.
\<close>

theorem dotted_digits_accepted:
  "(dotted_digits h \<longrightarrow> re_match dns_pattern h \<and> validate_api_ip h)
   \<and> dotted_digits ''999.0.0.1'' \<and> \<not> re_match ipv4_pattern ''999.0.0.1''
   \<and> \<not> spec_ipv4 ''999.0.0.1''"
proof (intro conjI impI)
  assume d: "dotted_digits h"
  then show "re_match dns_pattern h"
    by (intro dns_name_match dotted_digits_dns)
  from d have "spec_host h"
    by (simp add: spec_host_def dotted_digits_dns)
  then show "validate_api_ip h" by (rule validate_host)
next
  show "dotted_digits ''999.0.0.1''" by code_simp
  show "\<not> re_match ipv4_pattern ''999.0.0.1''" by code_simp
  show "\<not> spec_ipv4 ''999.0.0.1''" by code_simp
qed

theorem dotted_digits_accepted_witness:
  "validate_api_ip ''999.0.0.1'' \<and> re_match dns_pattern ''999.0.0.1''
   \<and> \<not> re_match ipv4_pattern ''999.0.0.1''"
  using dotted_digits_accepted [of "''999.0.0.1''"] by simp

end
